theory Spec2Isabelle
  imports Main "HOL-Library.Sublist" "HOL-Library.Monad_Syntax"
begin

section \<open>The intermediate representation\<close>

text \<open>
  The IR of the schema module: \<^verbatim>\<open>FieldTypeEnum\<close>, \<^verbatim>\<open>RelationTypeEnum\<close>,
  \<^verbatim>\<open>FieldSchema\<close>, \<^verbatim>\<open>ModelSchema\<close>, \<^verbatim>\<open>DatabaseSchemaSchema\<close> and
  \<^verbatim>\<open>GenerationConfigSchema\<close>. A JavaScript string is a \<open>string\<close> whose characters
  are read as code units below 256; an optional attribute is an \<open>option\<close>.
  \<open>FieldType\<close> has the eight tags of \<^verbatim>\<open>FieldTypeEnum\<close> and \<open>FT_other\<close>, which stands for a value
  of \<^verbatim>\<open>field.type\<close> that is none of the eight: the type is checked when the source is
  compiled, not when it runs, and the \<^verbatim>\<open>default\<close> branches of the generators are written for
  such a value.
  Record fields that several objects share in the source are prefixed with the initial of
  their object: \<open>fname\<close>, \<open>ftype\<close>, \<open>fdefault\<close> for \<^verbatim>\<open>Field.name\<close>, \<^verbatim>\<open>Field.type\<close>,
  \<^verbatim>\<open>Field.default\<close>; \<open>mname\<close>, \<open>mfields\<close> for \<^verbatim>\<open>Model\<close>; \<open>ename\<close>, \<open>evalues\<close> for an entry
  of \<^verbatim>\<open>enums\<close>; \<open>rmodel\<close>, \<open>rtype\<close> for \<^verbatim>\<open>relation.model\<close>, \<^verbatim>\<open>relation.type\<close>.
\<close>

datatype FieldType =
  FT_string | FT_number | FT_boolean | FT_date | FT_datetime | FT_enum | FT_json | FT_relation |
  FT_other

datatype RelationType = OneToOne | OneToMany | ManyToMany

record Relation =
  rmodel :: string
  rtype :: RelationType
  foreignKey :: "string option"

record Field =
  fname :: string
  ftype :: FieldType
  isRequired :: bool
  isUnique :: bool
  isId :: bool
  isList :: bool
  fdefault :: "string option"
  enumValues :: "string list option"
  relation :: "Relation option"
  description :: "string option"

record Model =
  mname :: string
  mfields :: "Field list"
  mdescription :: "string option"

record EnumDef =
  ename :: string
  evalues :: "string list"

record DatabaseSchema =
  models :: "Model list"
  enums :: "EnumDef list"

datatype FormLibrary = ReactHookForm | Native
datatype OrmStyle = Prisma | Drizzle
datatype ApiStyle = Trpc | Rest

record GenerationConfig =
  formLibrary :: FormLibrary
  ormStyle :: OrmStyle
  apiStyle :: ApiStyle
  includeComments :: bool
  strictMode :: bool

section \<open>String primitives\<close>

text \<open>\<^verbatim>\<open>Array.prototype.join\<close> on an array of strings.\<close>

fun join :: "string \<Rightarrow> string list \<Rightarrow> string" where
  "join sep [] = []"
| "join sep [x] = x"
| "join sep (x # y # ys) = x @ sep @ join sep (y # ys)"

text \<open>
  \<^verbatim>\<open>toLowerCase\<close> on one code unit below 256: the ASCII capitals and the Latin-1 capitals
  \<open>0xC0..0xDE\<close> other than the multiplication sign \<open>0xD7\<close> move up by \<open>0x20\<close>.
\<close>

definition toLowerChar :: "char \<Rightarrow> char" where
  "toLowerChar c =
     (let n = (of_char c :: nat)
      in if (65 \<le> n \<and> n \<le> 90) \<or> (192 \<le> n \<and> n \<le> 222 \<and> n \<noteq> 215)
         then char_of (n + 32) else c)"

definition toLowerCase :: "string \<Rightarrow> string" where
  "toLowerCase s = map toLowerChar s"

text \<open>\<^verbatim>\<open>str.charAt(0).toLowerCase() + str.slice(1)\<close>\<close>

definition lowerFirst :: "string \<Rightarrow> string" where
  "lowerFirst str = toLowerCase (take 1 str) @ drop 1 str"

text \<open>The template fragment \<^verbatim>\<open>"${v}"\<close>: a value between double quotes.\<close>

definition quoted :: "string \<Rightarrow> string" where
  "quoted v = [CHR 0x22] @ v @ [CHR 0x22]"

section \<open>Helpers shared by the two generators\<close>

text \<open>
  \<^verbatim>\<open>isAutoField\<close>: the id field, or a field with one of the four timestamp names.
\<close>

definition isAutoField :: "Field \<Rightarrow> bool" where
  "isAutoField field =
     (isId field \<or>
      fname field \<in> set [''createdAt'', ''updatedAt'', ''created_at'', ''updated_at''])"

text \<open>
  \<^verbatim>\<open>arraysEqual\<close>: lengths first, then \<^verbatim>\<open>a.every((val, i) => val === b[i])\<close>; the index is
  in range of \<open>b\<close> because the lengths agree.
\<close>

definition arraysEqual :: "string list \<Rightarrow> string list \<Rightarrow> bool" where
  "arraysEqual a b =
     (if length a \<noteq> length b then False
      else list_all (\<lambda>i. a ! i = b ! i) [0 ..< length a])"

text \<open>
  \<^verbatim>\<open>schema.enums.find((e) => field.enumValues && arraysEqual(e.values, field.enumValues))\<close>:
  an absent \<^verbatim>\<open>enumValues\<close> is falsy, an empty array is truthy.
\<close>

definition findTopEnum :: "Field \<Rightarrow> DatabaseSchema \<Rightarrow> EnumDef option" where
  "findTopEnum field schema =
     find (\<lambda>e. case enumValues field of
                 None \<Rightarrow> False
               | Some vs \<Rightarrow> arraysEqual (evalues e) vs) (enums schema)"

section \<open>The validator-schema generator\<close>

definition zodBaseType :: "Field \<Rightarrow> DatabaseSchema \<Rightarrow> bool \<Rightarrow> string" where
  "zodBaseType field schema strict =
     (if isId field then ''z.string().uuid()''
      else case ftype field of
        FT_string \<Rightarrow> if strict \<and> isRequired field then ''z.string().min(1)'' else ''z.string()''
      | FT_number \<Rightarrow> ''z.number()''
      | FT_boolean \<Rightarrow> ''z.boolean()''
      | FT_date \<Rightarrow> ''z.coerce.date()''
      | FT_datetime \<Rightarrow> ''z.coerce.date()''
      | FT_enum \<Rightarrow>
          (case findTopEnum field schema of
             Some topEnum \<Rightarrow> lowerFirst (ename topEnum) @ ''Schema''
           | None \<Rightarrow>
               (case enumValues field of
                  None \<Rightarrow> ''z.string()''
                | Some vs \<Rightarrow>
                    if vs \<noteq> [] then ''z.enum(['' @ join '', '' (map quoted vs) @ ''])''
                    else ''z.string()''))
      | FT_json \<Rightarrow> ''z.record(z.unknown())''
      | FT_relation \<Rightarrow> ''z.string()''
      | FT_other \<Rightarrow> ''z.string()'')"

definition zodFieldType :: "Field \<Rightarrow> DatabaseSchema \<Rightarrow> bool \<Rightarrow> string" where
  "zodFieldType field schema strict =
     (let base = zodBaseType field schema strict;
          base = (if isList field then ''z.array('' @ base @ '')'' else base);
          base = (if \<not> isRequired field then base @ ''.optional()'' else base)
      in base)"

text \<open>The line pushed for one field of an object schema.\<close>

definition zodFieldLine :: "DatabaseSchema \<Rightarrow> bool \<Rightarrow> Field \<Rightarrow> string" where
  "zodFieldLine schema strict field =
     ''  '' @ fname field @ '': '' @ zodFieldType field schema strict @ '',''"

text \<open>The loop over \<^verbatim>\<open>schema.enums\<close>: the lines pushed for one top-level enum.\<close>

definition zodEnumLines :: "GenerationConfig \<Rightarrow> EnumDef \<Rightarrow> string list" where
  "zodEnumLines config enumDef =
     (if includeComments config then [''/** '' @ ename enumDef @ '' enum values */''] else []) @
     [''export const '' @ lowerFirst (ename enumDef) @ ''Schema = z.enum(['' @
        join '', '' (map quoted (evalues enumDef)) @ '']);'',
      ''export type '' @ ename enumDef @ '' = z.infer<typeof '' @
        lowerFirst (ename enumDef) @ ''Schema>;'',
      '''']"

text \<open>
  The body of the loop over \<^verbatim>\<open>schema.models\<close>, one definition for each construct it
  pushes: the full schema, the create schema, the update schema, the inferred types.
\<close>

definition zodDataFields :: "Model \<Rightarrow> Field list" where
  "zodDataFields model = filter (\<lambda>f. ftype f \<noteq> FT_relation) (mfields model)"

definition zodCreateFields :: "Model \<Rightarrow> Field list" where
  "zodCreateFields model = filter (\<lambda>f. \<not> isAutoField f) (zodDataFields model)"

definition zodFullSchema :: "GenerationConfig \<Rightarrow> DatabaseSchema \<Rightarrow> Model \<Rightarrow> string list" where
  "zodFullSchema config schema model =
     (if includeComments config
      then [''/** Full '' @ mname model @ '' schema with all fields */''] else []) @
     [''export const '' @ lowerFirst (mname model) @ ''Schema = z.object({''] @
     map (zodFieldLine schema (strictMode config)) (zodDataFields model) @
     [''});'', '''']"

definition zodCreateSchema :: "GenerationConfig \<Rightarrow> DatabaseSchema \<Rightarrow> Model \<Rightarrow> string list" where
  "zodCreateSchema config schema model =
     (if includeComments config
      then [''/** Schema for creating a new '' @ mname model @ '' */''] else []) @
     [''export const create'' @ mname model @ ''Schema = z.object({''] @
     map (zodFieldLine schema (strictMode config)) (zodCreateFields model) @
     [''});'', '''']"

definition zodUpdateSchema :: "GenerationConfig \<Rightarrow> Model \<Rightarrow> string list" where
  "zodUpdateSchema config model =
     (if includeComments config
      then [''/** Schema for updating a '' @ mname model @ '' (all fields optional) */'']
      else []) @
     [''export const update'' @ mname model @ ''Schema = create'' @ mname model @
        ''Schema.partial();'',
      '''']"

definition zodInferredTypes :: "Model \<Rightarrow> string list" where
  "zodInferredTypes model =
     [''export type '' @ mname model @ '' = z.infer<typeof '' @
        lowerFirst (mname model) @ ''Schema>;'',
      ''export type Create'' @ mname model @ ''Input = z.infer<typeof create'' @
        mname model @ ''Schema>;'',
      ''export type Update'' @ mname model @ ''Input = z.infer<typeof update'' @
        mname model @ ''Schema>;'',
      '''']"

definition zodModelLines :: "GenerationConfig \<Rightarrow> DatabaseSchema \<Rightarrow> Model \<Rightarrow> string list" where
  "zodModelLines config schema model =
     zodFullSchema config schema model @ zodCreateSchema config schema model @
     zodUpdateSchema config model @ zodInferredTypes model"

text \<open>The array \<^verbatim>\<open>lines\<close> when \<^verbatim>\<open>generateZodSchemas\<close> returns, and the text it returns.\<close>

definition zodLines :: "DatabaseSchema \<Rightarrow> GenerationConfig \<Rightarrow> string list" where
  "zodLines schema config =
     [''import { z } from '' @ quoted ''zod'' @ '';'', ''''] @
     concat (map (zodEnumLines config) (enums schema)) @
     concat (map (zodModelLines config schema) (models schema))"

definition generateZodSchemas :: "DatabaseSchema \<Rightarrow> GenerationConfig \<Rightarrow> string" where
  "generateZodSchemas schema config = join [CHR 0x0A] (zodLines schema config)"

section \<open>The type-definition generator\<close>

definition tsBaseType :: "Field \<Rightarrow> string \<Rightarrow> DatabaseSchema \<Rightarrow> string" where
  "tsBaseType field modelName schema =
     (if isId field then modelName @ ''Id''
      else case ftype field of
        FT_string \<Rightarrow> ''string''
      | FT_number \<Rightarrow> ''number''
      | FT_boolean \<Rightarrow> ''boolean''
      | FT_date \<Rightarrow> ''Date''
      | FT_datetime \<Rightarrow> ''Date''
      | FT_enum \<Rightarrow>
          (case findTopEnum field schema of
             Some topEnum \<Rightarrow> ename topEnum
           | None \<Rightarrow>
               (case enumValues field of
                  None \<Rightarrow> ''string''
                | Some vs \<Rightarrow>
                    if vs \<noteq> [] then join '' | '' (map quoted vs) else ''string''))
      | FT_json \<Rightarrow> ''Record<string, unknown>''
      | FT_relation \<Rightarrow> ''string''
      | FT_other \<Rightarrow> ''string'')"

definition tsFieldType :: "Field \<Rightarrow> string \<Rightarrow> DatabaseSchema \<Rightarrow> string" where
  "tsFieldType field modelName schema =
     (let base = tsBaseType field modelName schema
      in if isList field then base @ ''[]'' else base)"

text \<open>\<^verbatim>\<open>field.isRequired ? "" : "?"\<close>\<close>

definition optionalMark :: "Field \<Rightarrow> string" where
  "optionalMark field = (if isRequired field then [] else ''?'')"

text \<open>The lines pushed for one top-level enum, and the branded id type of one model.\<close>

definition tsEnumLines :: "GenerationConfig \<Rightarrow> EnumDef \<Rightarrow> string list" where
  "tsEnumLines config enumDef =
     (if includeComments config then [''/** '' @ ename enumDef @ '' enum */''] else []) @
     [''export type '' @ ename enumDef @ '' = '' @
        join '' | '' (map quoted (evalues enumDef)) @ '';'',
      []]"

definition tsBrandLine :: "Model \<Rightarrow> string" where
  "tsBrandLine model =
     ''export type '' @ mname model @ ''Id = string & { __brand: '' @
       quoted (mname model @ ''Id'') @ '' };''"

text \<open>
  The full interface. A relation field is skipped by \<^verbatim>\<open>continue\<close>; a described field gets
  a doc line when comments are on (\<^verbatim>\<open>includeComments && field.description\<close>: an absent or
  empty description is falsy).
\<close>

definition tsFullFieldLines ::
  "GenerationConfig \<Rightarrow> DatabaseSchema \<Rightarrow> Model \<Rightarrow> Field \<Rightarrow> string list" where
  "tsFullFieldLines config schema model field =
     (case description field of
        Some d \<Rightarrow> if includeComments config \<and> d \<noteq> [] then [''  /** '' @ d @ '' */''] else []
      | None \<Rightarrow> []) @
     [''  '' @ fname field @ optionalMark field @ '': '' @
        tsFieldType field (mname model) schema @ '';'']"

definition tsFullInterface :: "GenerationConfig \<Rightarrow> DatabaseSchema \<Rightarrow> Model \<Rightarrow> string list" where
  "tsFullInterface config schema model =
     (if includeComments config then [''/** Full '' @ mname model @ '' entity */''] else []) @
     [''export interface '' @ mname model @ '' {''] @
     concat (map (tsFullFieldLines config schema model)
                 (filter (\<lambda>f. ftype f \<noteq> FT_relation) (mfields model))) @
     [''}'', []]"

text \<open>The create input and the update input.\<close>

definition tsCreateFields :: "Model \<Rightarrow> Field list" where
  "tsCreateFields model =
     filter (\<lambda>f. ftype f \<noteq> FT_relation \<and> \<not> isAutoField f) (mfields model)"

definition tsCreateFieldLine :: "DatabaseSchema \<Rightarrow> Model \<Rightarrow> Field \<Rightarrow> string" where
  "tsCreateFieldLine schema model field =
     ''  '' @ fname field @ optionalMark field @ '': '' @
       tsFieldType field (mname model) schema @ '';''"

definition tsCreateInput :: "GenerationConfig \<Rightarrow> DatabaseSchema \<Rightarrow> Model \<Rightarrow> string list" where
  "tsCreateInput config schema model =
     (if includeComments config
      then [''/** Input for creating a new '' @ mname model @ '' */''] else []) @
     [''export interface Create'' @ mname model @ ''Input {''] @
     map (tsCreateFieldLine schema model) (tsCreateFields model) @
     [''}'', []]"

definition tsUpdateInput :: "GenerationConfig \<Rightarrow> Model \<Rightarrow> string list" where
  "tsUpdateInput config model =
     (if includeComments config
      then [''/** Input for updating a '' @ mname model @ '' (all fields optional) */'']
      else []) @
     [''export type Update'' @ mname model @ ''Input = Partial<Create'' @ mname model @
        ''Input>;'',
      []]"

text \<open>
  The interface with relations, pushed only for a model with a relation field that carries
  its \<^verbatim>\<open>relation\<close> attribute. The filter keeps only such fields, so the \<open>None\<close> branch of
  the line is never taken.
\<close>

definition tsRelationLine :: "Field \<Rightarrow> string list" where
  "tsRelationLine field =
     (case relation field of
        None \<Rightarrow> []
      | Some r \<Rightarrow>
          if isList field then [''  '' @ fname field @ '': '' @ rmodel r @ ''[];'']
          else [''  '' @ fname field @ optionalMark field @ '': '' @ rmodel r @ '';''])"

definition tsWithRelations :: "GenerationConfig \<Rightarrow> Model \<Rightarrow> string list" where
  "tsWithRelations config model =
     (let relationFields =
            filter (\<lambda>f. ftype f = FT_relation \<and> relation f \<noteq> None) (mfields model)
      in if length relationFields > 0
         then (if includeComments config
               then [''/** '' @ mname model @ '' with all relations loaded */''] else []) @
              [''export interface '' @ mname model @ ''WithRelations extends '' @
                 mname model @ '' {''] @
              concat (map tsRelationLine relationFields) @
              [''}'', []]
         else [])"

text \<open>
  The fixed utility types pushed last. The banner comment of the source is drawn with the
  box character U+2500, which is no code unit below 256; it stands here with a hyphen in
  the place of each box character. No property below reads the banner.
\<close>

definition tsUtilityLines :: "string list" where
  "tsUtilityLines =
     [''// '' @ replicate 3 CHR ''-'' @ '' Utility Types '' @ replicate 55 CHR ''-'',
      [],
      ''export interface Paginated<T> {'',
      ''  items: T[];'',
      ''  nextCursor?: string;'',
      ''  total: number;'',
      ''}'',
      [],
      ''export type SortDirection = '' @ quoted ''asc'' @ '' | '' @ quoted ''desc'' @ '';'',
      [],
      ''export interface SortBy<T> {'',
      ''  field: keyof T;'',
      ''  direction: SortDirection;'',
      ''}'']"

text \<open>The array \<^verbatim>\<open>lines\<close> when \<^verbatim>\<open>generateTypeDefinitions\<close> returns, and its text.\<close>

definition tsLines :: "DatabaseSchema \<Rightarrow> GenerationConfig \<Rightarrow> string list" where
  "tsLines schema config =
     concat (map (tsEnumLines config) (enums schema)) @
     map tsBrandLine (models schema) @ [[]] @
     concat (map (tsFullInterface config schema) (models schema)) @
     concat (map (tsCreateInput config schema) (models schema)) @
     concat (map (tsUpdateInput config) (models schema)) @
     concat (map (tsWithRelations config) (models schema)) @
     tsUtilityLines"

definition generateTypeDefinitions :: "DatabaseSchema \<Rightarrow> GenerationConfig \<Rightarrow> string" where
  "generateTypeDefinitions schema config = join [CHR 0x0A] (tsLines schema config)"

section \<open>Strings and regular expressions of the parsers\<close>

text \<open>
  The character classes of the regular expressions, on code units below 256: \<^verbatim>\<open>\w\<close> is
  \<^verbatim>\<open>[A-Za-z0-9_]\<close>; \<^verbatim>\<open>\s\<close>, which is also what \<^verbatim>\<open>trim\<close> strips, is TAB, LF, VT, FF, CR, the
  space and the no-break space; the dot matches everything but the line terminators LF and
  CR.
\<close>

definition isWordChar :: "char \<Rightarrow> bool" where
  "isWordChar c =
     (let n = (of_char c :: nat)
      in (48 \<le> n \<and> n \<le> 57) \<or> (65 \<le> n \<and> n \<le> 90) \<or> n = 95 \<or> (97 \<le> n \<and> n \<le> 122))"

definition isWhiteSpace :: "char \<Rightarrow> bool" where
  "isWhiteSpace c =
     (let n = (of_char c :: nat) in (9 \<le> n \<and> n \<le> 13) \<or> n = 32 \<or> n = 160)"

definition isLineTerminator :: "char \<Rightarrow> bool" where
  "isLineTerminator c = (c = CHR 0x0A \<or> c = CHR 0x0D)"

text \<open>
  \<^verbatim>\<open>toUpperCase\<close>: the ASCII and Latin-1 small letters move down by \<open>0x20\<close>, the sharp s
  \<open>0xDF\<close> becomes \<^verbatim>\<open>SS\<close>. The micro sign \<open>0xB5\<close> and \<open>0xFF\<close> have capitals above 255; they stay as
  they are here, which changes nothing the parsers compute: they upper-case a name of word
  characters, or a text in which they only look for ASCII words.
\<close>

definition toUpperChar :: "char \<Rightarrow> string" where
  "toUpperChar c =
     (let n = (of_char c :: nat)
      in if (97 \<le> n \<and> n \<le> 122) \<or> (224 \<le> n \<and> n \<le> 254 \<and> n \<noteq> 247) then [char_of (n - 32)]
         else if n = 223 then ''SS''
         else [c])"

definition toUpperCase :: "string \<Rightarrow> string" where
  "toUpperCase s = concat (map toUpperChar s)"

text \<open>
  The canonical form of a character under the flag \<^verbatim>\<open>i\<close> (without \<^verbatim>\<open>u\<close>): its capital when
  that is one code unit, except that a code unit above 127 is never folded into ASCII.
\<close>

definition canonicalize :: "char \<Rightarrow> char" where
  "canonicalize c =
     (case toUpperChar c of
        [u] \<Rightarrow> if 128 \<le> (of_char c :: nat) \<and> (of_char u :: nat) < 128 then c else u
      | _ \<Rightarrow> c)"

text \<open>\<^verbatim>\<open>trim\<close>, \<^verbatim>\<open>startsWith\<close>, \<^verbatim>\<open>includes\<close>, and \<^verbatim>\<open>split\<close> on a one-character separator.\<close>

definition trim :: "string \<Rightarrow> string" where
  "trim s = rev (dropWhile isWhiteSpace (rev (dropWhile isWhiteSpace s)))"

fun startsWith :: "string \<Rightarrow> string \<Rightarrow> bool" where
  "startsWith s [] = True"
| "startsWith [] (p # ps) = False"
| "startsWith (c # cs) (p # ps) = (c = p \<and> startsWith cs ps)"

fun includes_str :: "string \<Rightarrow> string \<Rightarrow> bool" where
  "includes_str [] p = (p = [])"
| "includes_str (c # cs) p = (startsWith (c # cs) p \<or> includes_str cs p)"

fun splitChar :: "char \<Rightarrow> string \<Rightarrow> string list" where
  "splitChar d [] = [[]]"
| "splitChar d (c # cs) =
     (if c = d then [] # splitChar d cs
      else case splitChar d cs of
             x # xs \<Rightarrow> (c # x) # xs
           | [] \<Rightarrow> [[c]])"

text \<open>
  \<^verbatim>\<open>split\<close> on the regular expression \<^verbatim>\<open>/[_\s-]+/\<close>: a maximal run of separators ends a
  piece. A run at the start leaves an empty first piece, a run at the end an empty last
  piece.
\<close>

definition isCaseSeparator :: "char \<Rightarrow> bool" where
  "isCaseSeparator c = (c = CHR ''_'' \<or> isWhiteSpace c \<or> c = CHR ''-'')"

function splitRuns :: "(char \<Rightarrow> bool) \<Rightarrow> string \<Rightarrow> string list" where
  "splitRuns sep [] = [[]]"
| "splitRuns sep (c # cs) =
     (if sep c then [] # splitRuns sep (dropWhile sep cs)
      else case splitRuns sep cs of
             x # xs \<Rightarrow> (c # x) # xs
           | [] \<Rightarrow> [[c]])"
  by pat_completeness auto
termination
  by (relation "measure (\<lambda>(sep, s). length s)")
     (auto simp: length_dropWhile_le less_Suc_eq_le)

text \<open>
  The pieces of a regular expression. Each takes the text at the current position and
  returns the text after its match, with what it captures; \<open>None\<close> is no match.
  \<open>lit\<close> is a literal, \<open>litCI\<close> a literal under the flag \<^verbatim>\<open>i\<close>, \<open>spaces1\<close> is \<^verbatim>\<open>\s+\<close>, \<open>spaces0\<close> is
  \<^verbatim>\<open>\s*\<close>, \<open>word1\<close> is \<^verbatim>\<open>(\w+)\<close>, \<open>parenGroup1\<close> is \<^verbatim>\<open>([^)]+)\)\<close>, \<open>parenGroup0\<close> is \<^verbatim>\<open>([^)]*)\)\<close>,
  \<open>optQuote\<close> is \<^verbatim>\<open>["`]?\<close>. The quantifiers are greedy: the engine tries a shorter match of
  a piece only when the rest of the expression fails after the longest one. In the
  expressions below \<^verbatim>\<open>\s+\<close>, \<^verbatim>\<open>\s*\<close>, \<^verbatim>\<open>\w+\<close>, \<^verbatim>\<open>[^)]+\<close> and \<^verbatim>\<open>["`]?\<close> are followed either by
  nothing that has to match or by a piece that cannot start with a character of their
  class, so that the rest fails after every shorter match if it fails after the longest:
  the longest match is the only one to try. The places where another match can succeed
  (\<^verbatim>\<open>[^;]+\<close> and the optional groups of the SQL expressions) are written out where they
  occur.
\<close>

definition lit :: "string \<Rightarrow> string \<Rightarrow> string option" where
  "lit p s = (if startsWith s p then Some (drop (length p) s) else None)"

fun litCI :: "string \<Rightarrow> string \<Rightarrow> string option" where
  "litCI [] s = Some s"
| "litCI (p # ps) [] = None"
| "litCI (p # ps) (c # cs) = (if canonicalize c = canonicalize p then litCI ps cs else None)"

definition spaces1 :: "string \<Rightarrow> string option" where
  "spaces1 s =
     (case s of
        [] \<Rightarrow> None
      | c # cs \<Rightarrow> if isWhiteSpace c then Some (dropWhile isWhiteSpace cs) else None)"

definition spaces0 :: "string \<Rightarrow> string" where
  "spaces0 s = dropWhile isWhiteSpace s"

definition word1 :: "string \<Rightarrow> (string \<times> string) option" where
  "word1 s =
     (let w = takeWhile isWordChar s
      in if w = [] then None else Some (w, dropWhile isWordChar s))"

definition notParen :: "char \<Rightarrow> bool" where
  "notParen c = (c \<noteq> CHR '')'')"

definition parenGroup1 :: "string \<Rightarrow> (string \<times> string) option" where
  "parenGroup1 s =
     (if takeWhile notParen s \<noteq> [] \<and> startsWith (dropWhile notParen s) '')''
      then Some (takeWhile notParen s, drop 1 (dropWhile notParen s)) else None)"

definition parenGroup0 :: "string \<Rightarrow> (string \<times> string) option" where
  "parenGroup0 s =
     (if startsWith (dropWhile notParen s) '')''
      then Some (takeWhile notParen s, drop 1 (dropWhile notParen s)) else None)"

definition optQuote :: "string \<Rightarrow> string" where
  "optQuote s =
     (case s of
        [] \<Rightarrow> s
      | c # cs \<Rightarrow> if c = CHR 0x22 \<or> c = CHR 0x60 then cs else s)"

text \<open>
  A search without the flag \<^verbatim>\<open>g\<close>, and one \<^verbatim>\<open>exec\<close> of an expression with it: the match
  at the leftmost position that has one. The end of the text is a position too.
\<close>

fun regexSearch :: "(string \<Rightarrow> 'a option) \<Rightarrow> string \<Rightarrow> 'a option" where
  "regexSearch m [] = m []"
| "regexSearch m (c # cs) =
     (case m (c # cs) of
        Some r \<Rightarrow> Some r
      | None \<Rightarrow> regexSearch m cs)"

text \<open>
  The lookup \<^verbatim>\<open>typeMap[name] ?? fallback\<close> in an object literal. The literal inherits the
  properties of \<^verbatim>\<open>Object.prototype\<close>, so for the name of one of them the lookup returns that
  property, a function or an object, and not the fallback. \<open>FT_other\<close> stands for such a
  value.
\<close>

definition objectPrototypeNames :: "string list" where
  "objectPrototypeNames =
     [''constructor'', ''hasOwnProperty'', ''isPrototypeOf'', ''propertyIsEnumerable'',
      ''toLocaleString'', ''toString'', ''valueOf'', ''__proto__'', ''__defineGetter__'',
      ''__defineSetter__'', ''__lookupGetter__'', ''__lookupSetter__'']"

definition typeMapLookup :: "(string \<times> FieldType) list \<Rightarrow> string \<Rightarrow> FieldType \<Rightarrow> FieldType" where
  "typeMapLookup typeMap name fallback =
     (case map_of typeMap name of
        Some t \<Rightarrow> t
      | None \<Rightarrow> if name \<in> set objectPrototypeNames then FT_other else fallback)"

section \<open>The schema-definition parser\<close>

definition mapPrismaType :: "string \<Rightarrow> bool \<Rightarrow> FieldType" where
  "mapPrismaType prismaType isEnum =
     (if isEnum then FT_enum
      else typeMapLookup
             [(''String'', FT_string), (''Int'', FT_number), (''Float'', FT_number),
              (''Decimal'', FT_number), (''BigInt'', FT_number), (''Boolean'', FT_boolean),
              (''DateTime'', FT_datetime), (''Json'', FT_json)]
             prismaType FT_relation)"

text \<open>\<^verbatim>\<open>/^model\s+(\w+)\s*\{/\<close> and \<^verbatim>\<open>/^enum\s+(\w+)\s*\{/\<close>: the name of the block.\<close>

definition blockStart :: "string \<Rightarrow> string \<Rightarrow> string option" where
  "blockStart keyword s =
     do {
       r \<leftarrow> lit keyword s;
       r \<leftarrow> spaces1 r;
       (name, r) \<leftarrow> word1 r;
       r \<leftarrow> lit ''{'' (spaces0 r);
       Some name
     }"

text \<open>
  \<^verbatim>\<open>/^(\w+)\s+(\w+)(\[\])?\??/\<close>: the name, the raw type, and whether the list marker
  matched.
\<close>

definition prismaFieldMatch :: "string \<Rightarrow> (string \<times> string \<times> bool) option" where
  "prismaFieldMatch line =
     do {
       (name, r) \<leftarrow> word1 line;
       r \<leftarrow> spaces1 r;
       (rawType, r) \<leftarrow> word1 r;
       Some (name, rawType, startsWith r ''[]'')
     }"

text \<open>
  \<^verbatim>\<open>/@default\(([^)]+)\)/\<close>, \<^verbatim>\<open>/@relation\(([^)]*)\)/\<close> and \<^verbatim>\<open>/fields:\s*\[(\w+)\]/\<close> at one
  position: the captured group.
\<close>

definition prismaDefaultAt :: "string \<Rightarrow> string option" where
  "prismaDefaultAt s =
     do {
       r \<leftarrow> lit ''@default('' s;
       (arg, r) \<leftarrow> parenGroup1 r;
       Some arg
     }"

definition prismaRelationAt :: "string \<Rightarrow> string option" where
  "prismaRelationAt s =
     do {
       r \<leftarrow> lit ''@relation('' s;
       (args, r) \<leftarrow> parenGroup0 r;
       Some args
     }"

definition prismaFieldsAt :: "string \<Rightarrow> string option" where
  "prismaFieldsAt s =
     do {
       r \<leftarrow> lit ''fields:'' s;
       r \<leftarrow> lit ''['' (spaces0 r);
       (name, r) \<leftarrow> word1 r;
       r \<leftarrow> lit '']'' r;
       Some name
     }"

text \<open>
  \<^verbatim>\<open>parsePrismaField\<close>. A line that the field pattern does not match gives \<open>None\<close>, the
  \<^verbatim>\<open>null\<close> of the source. A value is assigned to \<^verbatim>\<open>field.default\<close> only if it is truthy, that
  is not empty.
\<close>

definition parsePrismaField :: "string \<Rightarrow> EnumDef list \<Rightarrow> Field option" where
  "parsePrismaField line knownEnums =
     (case prismaFieldMatch line of
        None \<Rightarrow> None
      | Some (name, rawType, isListMarked) \<Rightarrow>
          let isOptional = includes_str line ''?'';
              isIdAttr = includes_str line ''@id'';
              isUniqueAttr = includes_str line ''@unique'';
              defaultValue = regexSearch prismaDefaultAt line;
              enumDef = find (\<lambda>e. ename e = rawType) knownEnums;
              type = mapPrismaType rawType (enumDef \<noteq> None);
              field = \<lparr>fname = name, ftype = type, isRequired = \<not> isOptional,
                       isUnique = isUniqueAttr, isId = isIdAttr, isList = isListMarked,
                       fdefault = (case defaultValue of
                                     Some d \<Rightarrow> if d \<noteq> [] then Some d else None
                                   | None \<Rightarrow> None),
                       enumValues = map_option evalues enumDef,
                       relation = None, description = None\<rparr>
          in if type = FT_relation
             then Some (field\<lparr>relation := Some
                    \<lparr>rmodel = rawType,
                     rtype = (if isListMarked then OneToMany else OneToOne),
                     foreignKey = (case regexSearch prismaRelationAt line of
                                     Some args \<Rightarrow> regexSearch prismaFieldsAt args
                                   | None \<Rightarrow> None)\<rparr>\<rparr>)
             else Some field)"

fun parseModelFields :: "string list \<Rightarrow> EnumDef list \<Rightarrow> Field list" where
  "parseModelFields [] knownEnums = []"
| "parseModelFields (line # lines) knownEnums =
     (case parsePrismaField line knownEnums of
        Some field \<Rightarrow> field # parseModelFields lines knownEnums
      | None \<Rightarrow> parseModelFields lines knownEnums)"

text \<open>
  The loop of \<^verbatim>\<open>parsePrismaSchema\<close> over the lines of the input. Its state is the two
  result arrays and \<^verbatim>\<open>currentBlock\<close>; \<open>prismaStep\<close> is one turn of the loop.
\<close>

datatype BlockType = ModelBlock | EnumBlock

record Block =
  btype :: BlockType
  bname :: string
  blines :: "string list"

record PrismaState =
  pmodels :: "Model list"
  penums :: "EnumDef list"
  currentBlock :: "Block option"

definition closeBlock :: "PrismaState \<Rightarrow> Block \<Rightarrow> PrismaState" where
  "closeBlock st b =
     (case btype b of
        ModelBlock \<Rightarrow>
          st\<lparr>pmodels := pmodels st @
                [\<lparr>mname = bname b, mfields = parseModelFields (blines b) (penums st),
                  mdescription = None\<rparr>],
             currentBlock := None\<rparr>
      | EnumBlock \<Rightarrow>
          st\<lparr>penums := penums st @
                [\<lparr>ename = bname b,
                  evalues = filter (\<lambda>l. l \<noteq> [] \<and> \<not> startsWith l ''//'')
                                   (map trim (blines b))\<rparr>],
             currentBlock := None\<rparr>)"

definition prismaStep :: "PrismaState \<Rightarrow> string \<Rightarrow> PrismaState" where
  "prismaStep st line =
     (let trimmed = trim line
      in case blockStart ''model'' trimmed of
           Some name \<Rightarrow>
             st\<lparr>currentBlock := Some \<lparr>btype = ModelBlock, bname = name, blines = []\<rparr>\<rparr>
         | None \<Rightarrow>
             (case blockStart ''enum'' trimmed of
                Some name \<Rightarrow>
                  st\<lparr>currentBlock := Some \<lparr>btype = EnumBlock, bname = name, blines = []\<rparr>\<rparr>
              | None \<Rightarrow>
                  (case currentBlock st of
                     None \<Rightarrow> st
                   | Some b \<Rightarrow>
                       if trimmed = ''}'' then closeBlock st b
                       else if trimmed \<noteq> [] \<and> \<not> startsWith trimmed ''//'' \<and>
                               \<not> startsWith trimmed ''@@''
                            then st\<lparr>currentBlock := Some (b\<lparr>blines := blines b @ [trimmed]\<rparr>)\<rparr>
                            else st)))"

definition prismaInit :: PrismaState where
  "prismaInit = \<lparr>pmodels = [], penums = [], currentBlock = None\<rparr>"

definition parsePrismaLines :: "string list \<Rightarrow> DatabaseSchema" where
  "parsePrismaLines lines =
     (let st = foldl prismaStep prismaInit lines
      in \<lparr>models = pmodels st, enums = penums st\<rparr>)"

definition parsePrismaSchema :: "string \<Rightarrow> DatabaseSchema" where
  "parsePrismaSchema input = parsePrismaLines (splitChar CHR 0x0A input)"

section \<open>The SQL DDL parser\<close>

definition mapSqlType :: "string \<Rightarrow> FieldType" where
  "mapSqlType sqlType =
     typeMapLookup
       [(''VARCHAR'', FT_string), (''CHAR'', FT_string), (''TEXT'', FT_string),
        (''UUID'', FT_string), (''CITEXT'', FT_string),
        (''INTEGER'', FT_number), (''INT'', FT_number), (''SMALLINT'', FT_number),
        (''BIGINT'', FT_number), (''SERIAL'', FT_number), (''BIGSERIAL'', FT_number),
        (''FLOAT'', FT_number), (''DOUBLE'', FT_number), (''DECIMAL'', FT_number),
        (''NUMERIC'', FT_number), (''REAL'', FT_number),
        (''BOOLEAN'', FT_boolean), (''BOOL'', FT_boolean),
        (''DATE'', FT_date), (''TIMESTAMP'', FT_datetime), (''TIMESTAMPTZ'', FT_datetime),
        (''JSON'', FT_json), (''JSONB'', FT_json)]
       sqlType FT_string"

definition toPascalCase :: "string \<Rightarrow> string" where
  "toPascalCase str =
     concat (map (\<lambda>word. toUpperCase (take 1 word) @ toLowerCase (drop 1 word))
                 (splitRuns isCaseSeparator str))"

definition toCamelCase :: "string \<Rightarrow> string" where
  "toCamelCase str =
     (let pascal = toPascalCase str in toLowerCase (take 1 pascal) @ drop 1 pascal)"

text \<open>
  \<^verbatim>\<open>splitColumns\<close>: the loop over the characters of the body, with the nesting depth, the
  current piece and the pieces found so far. The depth is an integer and may go below zero.
\<close>

fun splitColumnsLoop :: "int \<Rightarrow> string \<Rightarrow> string list \<Rightarrow> string \<Rightarrow> string list" where
  "splitColumnsLoop depth current result [] =
     (if trim current \<noteq> [] then result @ [current] else result)"
| "splitColumnsLoop depth current result (char # body) =
     (let depth = (if char = CHR ''('' then depth + 1
                   else if char = CHR '')'' then depth - 1 else depth)
      in if char = CHR '','' \<and> depth = 0
         then splitColumnsLoop depth [] (result @ [current]) body
         else splitColumnsLoop depth (current @ [char]) result body)"

definition splitColumns :: "string \<Rightarrow> string list" where
  "splitColumns body = splitColumnsLoop 0 [] [] body"

text \<open>
  \<^verbatim>\<open>/^(PRIMARY\s+KEY|FOREIGN\s+KEY|UNIQUE|INDEX|CHECK|CONSTRAINT)/i\<close>: the test for a
  table-level constraint.
\<close>

definition isConstraintDef :: "string \<Rightarrow> bool" where
  "isConstraintDef s =
     (do { r \<leftarrow> litCI ''PRIMARY'' s; r \<leftarrow> spaces1 r; litCI ''KEY'' r } \<noteq> None \<or>
      do { r \<leftarrow> litCI ''FOREIGN'' s; r \<leftarrow> spaces1 r; litCI ''KEY'' r } \<noteq> None \<or>
      litCI ''UNIQUE'' s \<noteq> None \<or> litCI ''INDEX'' s \<noteq> None \<or>
      litCI ''CHECK'' s \<noteq> None \<or> litCI ''CONSTRAINT'' s \<noteq> None)"

text \<open>
  \<^verbatim>\<open>/^["`]?(\w+)["`]?\s+(\w+)(?:\(([^)]*)\))?(.*)$/i\<close>: the name, the raw type, the type
  parameter if the optional group matched, and the rest. The dot matches no line
  terminator and \<^verbatim>\<open>$\<close> is the end of the text, so the rest must be free of line
  terminators. The optional group is tried first. When it matches and the text after it
  has a line terminator, leaving the group out does not help, since the rest would then
  have to cross the same text; a shorter raw type does not help for the same reason.
\<close>

definition sqlColumnMatch :: "string \<Rightarrow> (string \<times> string \<times> string option \<times> string) option" where
  "sqlColumnMatch def =
     do {
       (name, r) \<leftarrow> word1 (optQuote def);
       r \<leftarrow> spaces1 (optQuote r);
       (rawType, r) \<leftarrow> word1 r;
       case (if startsWith r ''('' then dropWhile notParen (drop 1 r) else []) of
         c # rest \<Rightarrow>
           if list_ex isLineTerminator rest then None
           else Some (name, rawType, Some (takeWhile notParen (drop 1 r)), rest)
       | [] \<Rightarrow>
           if list_ex isLineTerminator r then None
           else Some (name, rawType, None, r)
     }"

text \<open>
  \<^verbatim>\<open>/DEFAULT\s+(?:'([^']*)'|(\S+))/i\<close> at one position: the value of
  \<^verbatim>\<open>defaultMatch[1] ?? defaultMatch[2]\<close>. The quoted alternative is tried first; when the
  quote is not closed, the second alternative takes the text up to the next white space.
\<close>

definition notQuote :: "char \<Rightarrow> bool" where
  "notQuote c = (c \<noteq> CHR 0x27)"

definition sqlDefaultAt :: "string \<Rightarrow> string option" where
  "sqlDefaultAt s =
     do {
       r \<leftarrow> litCI ''DEFAULT'' s;
       r \<leftarrow> spaces1 r;
       if startsWith r [CHR 0x27] \<and> startsWith (dropWhile notQuote (drop 1 r)) [CHR 0x27]
       then Some (takeWhile notQuote (drop 1 r))
       else if r \<noteq> [] then Some (takeWhile (\<lambda>c. \<not> isWhiteSpace c) r)
       else None
     }"

text \<open>\<^verbatim>\<open>/REFERENCES\s+["`]?(\w+)["`]?/i\<close> at one position: the referenced table.\<close>

definition sqlReferencesAt :: "string \<Rightarrow> string option" where
  "sqlReferencesAt s =
     do {
       r \<leftarrow> litCI ''REFERENCES'' s;
       r \<leftarrow> spaces1 r;
       (table, r) \<leftarrow> word1 (optQuote r);
       Some table
     }"

text \<open>
  \<^verbatim>\<open>parseSqlColumn\<close>. \<^verbatim>\<open>typeParam\<close> is bound and never read. With a \<^verbatim>\<open>REFERENCES\<close> match the
  type is overwritten and the relation is set.
\<close>

definition parseSqlColumn :: "string \<Rightarrow> EnumDef list \<Rightarrow> Field option" where
  "parseSqlColumn def knownEnums =
     (case sqlColumnMatch def of
        None \<Rightarrow> None
      | Some (name, rawType, typeParam, rest) \<Rightarrow>
          let upperType = toUpperCase rawType;
              restUpper = toUpperCase rest;
              isIdAttr = (includes_str restUpper ''PRIMARY KEY'' \<or>
                          includes_str restUpper ''SERIAL'');
              isUniqueAttr = includes_str restUpper ''UNIQUE'';
              isRequiredAttr = (includes_str restUpper ''NOT NULL'' \<or> isIdAttr);
              defaultValue = regexSearch sqlDefaultAt rest;
              enumDef = find (\<lambda>e. toLowerCase (ename e) = toLowerCase rawType) knownEnums;
              refMatch = regexSearch sqlReferencesAt rest;
              type = (if enumDef \<noteq> None then FT_enum else mapSqlType upperType);
              field = \<lparr>fname = toCamelCase name, ftype = type, isRequired = isRequiredAttr,
                       isUnique = isUniqueAttr, isId = isIdAttr, isList = False,
                       fdefault = (case defaultValue of
                                     Some d \<Rightarrow> if d \<noteq> [] then Some d else None
                                   | None \<Rightarrow> None),
                       enumValues = map_option evalues enumDef,
                       relation = None, description = None\<rparr>
          in case refMatch of
               Some table \<Rightarrow>
                 Some (field\<lparr>ftype := FT_relation,
                             relation := Some \<lparr>rmodel = toPascalCase table, rtype = OneToOne,
                                               foreignKey = Some (toCamelCase name)\<rparr>\<rparr>)
             | None \<Rightarrow> Some field)"

text \<open>\<^verbatim>\<open>parseSqlColumns\<close>: the loop over the column definitions, and the function.\<close>

fun parseSqlColumnDefs :: "string list \<Rightarrow> EnumDef list \<Rightarrow> Field list" where
  "parseSqlColumnDefs [] knownEnums = []"
| "parseSqlColumnDefs (def # columnDefs) knownEnums =
     (let trimmed = trim def
      in if isConstraintDef trimmed then parseSqlColumnDefs columnDefs knownEnums
         else case parseSqlColumn trimmed knownEnums of
                Some field \<Rightarrow> field # parseSqlColumnDefs columnDefs knownEnums
              | None \<Rightarrow> parseSqlColumnDefs columnDefs knownEnums)"

definition parseSqlColumns :: "string \<Rightarrow> EnumDef list \<Rightarrow> Field list" where
  "parseSqlColumns body knownEnums = parseSqlColumnDefs (splitColumns body) knownEnums"

text \<open>
  \<^verbatim>\<open>/CREATE\s+TYPE\s+(\w+)\s+AS\s+ENUM\s*\(([^)]+)\)/gi\<close> at one position: the two groups,
  and the text after the match, where the next \<^verbatim>\<open>exec\<close> starts.
\<close>

definition enumRegexAt :: "string \<Rightarrow> ((string \<times> string) \<times> string) option" where
  "enumRegexAt s =
     do {
       r \<leftarrow> litCI ''CREATE'' s;
       r \<leftarrow> spaces1 r;
       r \<leftarrow> litCI ''TYPE'' r;
       r \<leftarrow> spaces1 r;
       (name, r) \<leftarrow> word1 r;
       r \<leftarrow> spaces1 r;
       r \<leftarrow> litCI ''AS'' r;
       r \<leftarrow> spaces1 r;
       r \<leftarrow> litCI ''ENUM'' r;
       r \<leftarrow> lit ''('' (spaces0 r);
       (literals, r) \<leftarrow> parenGroup1 r;
       Some ((name, literals), r)
     }"

text \<open>
  \<^verbatim>\<open>/CREATE\s+TABLE\s+(?:IF\s+NOT\s+EXISTS\s+)?["`]?(\w+)["`]?\s*\(([^;]+)\)/gi\<close> at one
  position. \<^verbatim>\<open>[^;]+\<close> runs to the next semicolon or to the end of the text and then gives
  characters back until a closing parenthesis follows: the body ends before the last
  closing parenthesis of that stretch, and has at least one character. The optional group
  is tried first, and left out when the expression does not match with it.
\<close>

definition notSemicolon :: "char \<Rightarrow> bool" where
  "notSemicolon c = (c \<noteq> CHR '';'')"

fun lastIndexOf :: "char \<Rightarrow> string \<Rightarrow> nat option" where
  "lastIndexOf d [] = None"
| "lastIndexOf d (c # cs) =
     (case lastIndexOf d cs of
        Some i \<Rightarrow> Some (Suc i)
      | None \<Rightarrow> if c = d then Some 0 else None)"

definition tableNameAndBody :: "string \<Rightarrow> ((string \<times> string) \<times> string) option" where
  "tableNameAndBody s =
     do {
       (name, r) \<leftarrow> word1 (optQuote s);
       r \<leftarrow> lit ''('' (spaces0 (optQuote r));
       case lastIndexOf CHR '')'' (takeWhile notSemicolon r) of
         None \<Rightarrow> None
       | Some i \<Rightarrow> if 1 \<le> i then Some ((name, take i r), drop (Suc i) r) else None
     }"

definition ifNotExists :: "string \<Rightarrow> string option" where
  "ifNotExists s =
     do {
       r \<leftarrow> litCI ''IF'' s;
       r \<leftarrow> spaces1 r;
       r \<leftarrow> litCI ''NOT'' r;
       r \<leftarrow> spaces1 r;
       r \<leftarrow> litCI ''EXISTS'' r;
       spaces1 r
     }"

definition tableRegexAt :: "string \<Rightarrow> ((string \<times> string) \<times> string) option" where
  "tableRegexAt s =
     do {
       r \<leftarrow> litCI ''CREATE'' s;
       r \<leftarrow> spaces1 r;
       r \<leftarrow> litCI ''TABLE'' r;
       r \<leftarrow> spaces1 r;
       case Option.bind (ifNotExists r) tableNameAndBody of
         Some m \<Rightarrow> Some m
       | None \<Rightarrow> tableNameAndBody r
     }"

text \<open>
  The two \<^verbatim>\<open>while\<close> loops of \<^verbatim>\<open>parseSqlSchema\<close> call \<^verbatim>\<open>exec\<close> until it returns \<^verbatim>\<open>null\<close>; each
  \<^verbatim>\<open>exec\<close> starts where the last match ended. Every match of the two expressions has at
  least one character, so the text that is left gets shorter and the loops end.
\<close>

lemma lit_length: "lit p s = Some r \<Longrightarrow> length r \<le> length s"
  by (auto simp: lit_def split: if_splits)

lemma litCI_length: "litCI p s = Some r \<Longrightarrow> length r \<le> length s"
  by (induction p s rule: litCI.induct) (auto split: if_splits)

lemma spaces1_shorter: "spaces1 s = Some r \<Longrightarrow> length r < length s"
  by (auto simp: spaces1_def less_Suc_eq_le length_dropWhile_le split: list.splits if_splits)

lemma spaces0_length: "length (spaces0 s) \<le> length s"
  by (simp add: spaces0_def length_dropWhile_le)

lemma optQuote_length: "length (optQuote s) \<le> length s"
  by (auto simp: optQuote_def split: list.splits)

lemma word1_length: "word1 s = Some (w, r) \<Longrightarrow> length r \<le> length s"
  by (auto simp: word1_def Let_def length_dropWhile_le split: if_splits)

lemma parenGroup1_length: "parenGroup1 s = Some (g, r) \<Longrightarrow> length r \<le> length s"
  using length_dropWhile_le [of notParen s]
  by (auto simp: parenGroup1_def split: if_splits)

lemma lit_spaces0_length: "lit p (spaces0 s) = Some r \<Longrightarrow> length r \<le> length s"
  using lit_length [of p "spaces0 s" r] spaces0_length [of s] by simp

lemma word1_optQuote_length: "word1 (optQuote s) = Some (w, r) \<Longrightarrow> length r \<le> length s"
  using word1_length [of "optQuote s" w r] optQuote_length [of s] by simp

lemma lit_spaces0_optQuote_length:
  "lit p (spaces0 (optQuote s)) = Some r \<Longrightarrow> length r \<le> length s"
  using lit_spaces0_length [of p "optQuote s" r] optQuote_length [of s] by simp

lemma regexSearch_shorter:
  assumes "\<And>t a r. m t = Some (a, r) \<Longrightarrow> length r < length t"
  shows "regexSearch m s = Some (a, r) \<Longrightarrow> length r < length s"
proof (induction s)
  case Nil
  then have "m [] = Some (a, r)" by simp
  from assms [OF this] show ?case .
next
  case (Cons c cs)
  show ?case
  proof (cases "m (c # cs)")
    case None
    with Cons show ?thesis by auto
  next
    case (Some x)
    with Cons.prems have "m (c # cs) = Some (a, r)" by simp
    then show ?thesis by (rule assms)
  qed
qed

lemma enumRegexAt_shorter: "enumRegexAt s = Some (a, r) \<Longrightarrow> length r < length s"
  unfolding enumRegexAt_def
  by (auto split: Option.bind_splits
      dest!: litCI_length spaces1_shorter word1_length lit_spaces0_length parenGroup1_length)

lemma enumSearch_shorter:
  "regexSearch enumRegexAt s = Some (a, r) \<Longrightarrow> length r < length s"
  by (rule regexSearch_shorter [where m = enumRegexAt]) (rule enumRegexAt_shorter)

lemma tableNameAndBody_length: "tableNameAndBody s = Some (a, r) \<Longrightarrow> length r \<le> length s"
  unfolding tableNameAndBody_def
  by (auto split: Option.bind_splits if_splits option.splits
      dest!: word1_optQuote_length lit_spaces0_optQuote_length)

lemma ifNotExists_length: "ifNotExists s = Some r \<Longrightarrow> length r \<le> length s"
  unfolding ifNotExists_def
  by (auto split: Option.bind_splits dest!: litCI_length spaces1_shorter)

lemma tableRegexAt_shorter: "tableRegexAt s = Some (a, r) \<Longrightarrow> length r < length s"
  unfolding tableRegexAt_def
  by (auto split: Option.bind_splits option.splits
      dest!: litCI_length spaces1_shorter tableNameAndBody_length ifNotExists_length)

lemma tableSearch_shorter:
  "regexSearch tableRegexAt s = Some (a, r) \<Longrightarrow> length r < length s"
  by (rule regexSearch_shorter [where m = tableRegexAt]) (rule tableRegexAt_shorter)

function enumExecAll :: "string \<Rightarrow> (string \<times> string) list" where
  "enumExecAll input =
     (case regexSearch enumRegexAt input of
        None \<Rightarrow> []
      | Some (groups, rest) \<Rightarrow> groups # enumExecAll rest)"
  by pat_completeness auto
termination
  by (relation "measure length") (auto dest: enumSearch_shorter)

declare enumExecAll.simps [simp del]

function tableExecAll :: "string \<Rightarrow> (string \<times> string) list" where
  "tableExecAll input =
     (case regexSearch tableRegexAt input of
        None \<Rightarrow> []
      | Some (groups, rest) \<Rightarrow> groups # tableExecAll rest)"
  by pat_completeness auto
termination
  by (relation "measure length") (auto dest: tableSearch_shorter)

declare tableExecAll.simps [simp del]

text \<open>
  \<^verbatim>\<open>parseSqlSchema\<close>: first all the enums of the input, each literal trimmed and stripped
  of its single quotes, then the tables, every table parsed with all the enums.
\<close>

definition sqlEnumOf :: "string \<times> string \<Rightarrow> EnumDef" where
  "sqlEnumOf groups =
     \<lparr>ename = fst groups,
      evalues = map (\<lambda>v. filter notQuote (trim v)) (splitChar CHR '','' (snd groups))\<rparr>"

definition sqlModelOf :: "EnumDef list \<Rightarrow> string \<times> string \<Rightarrow> Model" where
  "sqlModelOf knownEnums groups =
     \<lparr>mname = toPascalCase (fst groups),
      mfields = parseSqlColumns (snd groups) knownEnums,
      mdescription = None\<rparr>"

definition parseSqlSchema :: "string \<Rightarrow> DatabaseSchema" where
  "parseSqlSchema input =
     (let enumList = map sqlEnumOf (enumExecAll input);
          modelList = map (sqlModelOf enumList) (tableExecAll input)
      in \<lparr>models = modelList, enums = enumList\<rparr>)"

section \<open>The shapes the specification describes\<close>

text \<open>
  The create shape in the specification's words: the non-relation fields, minus the id
  field and the fields named \<^verbatim>\<open>createdAt\<close>, \<^verbatim>\<open>updatedAt\<close>, \<^verbatim>\<open>created_at\<close>, \<^verbatim>\<open>updated_at\<close>.
\<close>

definition spec_createFields :: "Model \<Rightarrow> Field list" where
  "spec_createFields model =
     filter (\<lambda>f. ftype f \<noteq> FT_relation \<and> \<not> isId f \<and>
                 fname f \<notin> {''createdAt'', ''updatedAt'', ''created_at'', ''updated_at''})
            (mfields model)"

text \<open>
  The type table in the specification's words, with no exception for the id field: the
  scalar types by name, an enum by the top-level enum with exactly the field's values, else
  the inline union of the values, else \<^verbatim>\<open>string\<close>.
\<close>

definition spec_tsBaseType :: "Field \<Rightarrow> DatabaseSchema \<Rightarrow> string" where
  "spec_tsBaseType field schema =
     (case ftype field of
        FT_string \<Rightarrow> ''string''
      | FT_number \<Rightarrow> ''number''
      | FT_boolean \<Rightarrow> ''boolean''
      | FT_date \<Rightarrow> ''Date''
      | FT_datetime \<Rightarrow> ''Date''
      | FT_enum \<Rightarrow>
          (case enumValues field of
             None \<Rightarrow> ''string''
           | Some vs \<Rightarrow>
               (case find (\<lambda>e. evalues e = vs) (enums schema) of
                  Some e \<Rightarrow> ename e
                | None \<Rightarrow> if vs \<noteq> [] then join '' | '' (map quoted vs) else ''string''))
      | FT_json \<Rightarrow> ''Record<string, unknown>''
      | FT_relation \<Rightarrow> ''string''
      | FT_other \<Rightarrow> ''string'')"

text \<open>
  A field whose base type is written as an inline union of two or more literals. The
  generator appends \<^verbatim>\<open>[]\<close> to the text of the base type without parentheses, so for such a
  field the suffix binds to the last literal only.
\<close>

definition tsInlineUnion :: "Field \<Rightarrow> DatabaseSchema \<Rightarrow> bool" where
  "tsInlineUnion field schema =
     (\<not> isId field \<and> ftype field = FT_enum \<and> findTopEnum field schema = None \<and>
      (case enumValues field of None \<Rightarrow> False | Some vs \<Rightarrow> 2 \<le> length vs))"

text \<open>
  A \<^verbatim>\<open>CREATE TYPE ... AS ENUM\<close> statement in the specification's words, by its parts: the four
  keywords in any letter case, the stretches of white space between them, the name, and
  the list of literals between the parentheses. The form covers a name written without
  quotes and without a schema prefix, and a non-empty literal list without a closing
  parenthesis inside a literal.
\<close>

record EnumStatement =
  kwCreate :: string
  sp1 :: string
  kwType :: string
  sp2 :: string
  typeName :: string
  sp3 :: string
  kwAs :: string
  sp4 :: string
  kwEnum :: string
  sp5 :: string
  literalList :: string

definition spec_enumStatementText :: "EnumStatement \<Rightarrow> string" where
  "spec_enumStatementText st =
     kwCreate st @ sp1 st @ kwType st @ sp2 st @ typeName st @ sp3 st @ kwAs st @ sp4 st @
     kwEnum st @ sp5 st @ ''('' @ literalList st @ '')''"







section \<open>Example inputs\<close>

definition exConfig :: GenerationConfig where
  "exConfig = \<lparr>formLibrary = ReactHookForm, ormStyle = Prisma, apiStyle = Trpc,
               includeComments = False, strictMode = False\<rparr>"

definition exField :: "string \<Rightarrow> FieldType \<Rightarrow> Field" where
  "exField n t = \<lparr>fname = n, ftype = t, isRequired = True, isUnique = False, isId = False,
                  isList = False, fdefault = None, enumValues = None, relation = None,
                  description = None\<rparr>"

definition exRole :: EnumDef where
  "exRole = \<lparr>ename = ''Role'', evalues = [''ADMIN'', ''EDITOR'', ''AUTHOR'']\<rparr>"

definition exIdField :: Field where
  "exIdField = (exField ''id'' FT_string)\<lparr>isId := True\<rparr>"

definition exRoleField :: Field where
  "exRoleField = (exField ''role'' FT_enum)\<lparr>enumValues := Some (evalues exRole)\<rparr>"

definition exTagsField :: Field where
  "exTagsField = (exField ''tags'' FT_string)\<lparr>isList := True, isRequired := False\<rparr>"

definition exInlineField :: Field where
  "exInlineField = (exField ''size'' FT_enum)\<lparr>enumValues := Some [''S'', ''L'']\<rparr>"

definition exUser :: Model where
  "exUser = \<lparr>mname = ''User'',
             mfields = [(exField ''id'' FT_string)\<lparr>isId := True\<rparr>,
                        exField ''email'' FT_string,
                        (exField ''role'' FT_enum)\<lparr>enumValues := Some (evalues exRole)\<rparr>,
                        (exField ''posts'' FT_relation)\<lparr>isList := True\<rparr>,
                        exField ''createdAt'' FT_datetime],
             mdescription = None\<rparr>"

definition exSchema :: DatabaseSchema where
  "exSchema = \<lparr>models = [exUser], enums = [exRole]\<rparr>"

text \<open>The lines the two generators produce for \<open>exSchema\<close> with \<open>exConfig\<close>.\<close>

definition exZodLines :: "string list" where
  "exZodLines =
     [''import { z } from '' @ quoted ''zod'' @ '';'',
      [],
      ''export const roleSchema = z.enum(['' @ quoted ''ADMIN'' @ '', '' @ quoted ''EDITOR'' @
        '', '' @ quoted ''AUTHOR'' @ '']);'',
      ''export type Role = z.infer<typeof roleSchema>;'',
      [],
      ''export const userSchema = z.object({'',
      ''  id: z.string().uuid(),'',
      ''  email: z.string(),'',
      ''  role: roleSchema,'',
      ''  createdAt: z.coerce.date(),'',
      ''});'',
      [],
      ''export const createUserSchema = z.object({'',
      ''  email: z.string(),'',
      ''  role: roleSchema,'',
      ''});'',
      [],
      ''export const updateUserSchema = createUserSchema.partial();'',
      [],
      ''export type User = z.infer<typeof userSchema>;'',
      ''export type CreateUserInput = z.infer<typeof createUserSchema>;'',
      ''export type UpdateUserInput = z.infer<typeof updateUserSchema>;'',
      []]"

definition exTsLines :: "string list" where
  "exTsLines =
     [''export type Role = '' @ quoted ''ADMIN'' @ '' | '' @ quoted ''EDITOR'' @ '' | '' @
        quoted ''AUTHOR'' @ '';'',
      [],
      ''export type UserId = string & { __brand: '' @ quoted ''UserId'' @ '' };'',
      [],
      ''export interface User {'',
      ''  id: UserId;'',
      ''  email: string;'',
      ''  role: Role;'',
      ''  createdAt: Date;'',
      ''}'',
      [],
      ''export interface CreateUserInput {'',
      ''  email: string;'',
      ''  role: Role;'',
      ''}'',
      [],
      ''export type UpdateUserInput = Partial<CreateUserInput>;'',
      []] @ tsUtilityLines"

text \<open>
  A schema-definition document in which the model \<^verbatim>\<open>User\<close> refers to the enum \<^verbatim>\<open>Role\<close> before
  its block and the model \<^verbatim>\<open>Post\<close> after it, and a document with a field line that has no
  type.
\<close>

definition exPrismaLines :: "string list" where
  "exPrismaLines =
     [''model User {'',
      ''  role  Role'',
      ''  posts Post[]'',
      ''}'',
      ''enum Role {'',
      ''  ADMIN'',
      ''  USER'',
      ''}'',
      ''model Post {'',
      ''  role   Role'',
      ''  author User @relation(fields: [authorId], references: [id])'',
      ''}'']"

definition exPrismaDoc :: string where
  "exPrismaDoc = join [CHR 0x0A] exPrismaLines"

definition exDegradeDoc :: string where
  "exDegradeDoc =
     join [CHR 0x0A]
       [''model User {'',
        ''  id    String @id'',
        ''  email'',
        ''  name  String?'',
        ''}'']"

text \<open>
  An SQL text whose table uses an enum type that is created after the table, and a table
  with a column definition that has no type.
\<close>

definition exSqlTableStmt :: string where
  "exSqlTableStmt = ''CREATE TABLE acct (id INT PRIMARY KEY, st state, o INT REFERENCES usr)''"

definition exSqlTypeStmt :: string where
  "exSqlTypeStmt =
     ''CREATE TYPE State AS ENUM ('' @ [CHR 0x27] @ ''on'' @ [CHR 0x27] @
     '', '' @ [CHR 0x27] @ ''off'' @ [CHR 0x27] @ '')''"

definition exSqlDoc :: string where
  "exSqlDoc = exSqlTableStmt @ '';'' @ [CHR 0x0A] @ exSqlTypeStmt @ '';''"

definition exSqlDegradeDoc :: string where
  "exSqlDegradeDoc = ''CREATE TABLE t (id UUID PRIMARY KEY, bogus, email TEXT)''"

text \<open>What the two parsers return for these texts.\<close>

definition exPostsField :: Field where
  "exPostsField =
     (exField ''posts'' FT_relation)
       \<lparr>isList := True,
        relation := Some \<lparr>rmodel = ''Post'', rtype = OneToMany, foreignKey = None\<rparr>\<rparr>"

definition exAuthorField :: Field where
  "exAuthorField =
     (exField ''author'' FT_relation)
       \<lparr>relation := Some \<lparr>rmodel = ''User'', rtype = OneToOne,
                           foreignKey = Some ''authorId''\<rparr>\<rparr>"

definition exParsedUser :: Model where
  "exParsedUser =
     \<lparr>mname = ''User'',
      mfields =
        [(exField ''role'' FT_relation)
           \<lparr>relation := Some \<lparr>rmodel = ''Role'', rtype = OneToOne, foreignKey = None\<rparr>\<rparr>,
         exPostsField],
      mdescription = None\<rparr>"

definition exParsedPost :: Model where
  "exParsedPost =
     \<lparr>mname = ''Post'',
      mfields = [(exField ''role'' FT_enum)\<lparr>enumValues := Some [''ADMIN'', ''USER'']\<rparr>,
                 exAuthorField],
      mdescription = None\<rparr>"

definition exPrismaParsed :: DatabaseSchema where
  "exPrismaParsed =
     \<lparr>models = [exParsedUser, exParsedPost],
      enums = [\<lparr>ename = ''Role'', evalues = [''ADMIN'', ''USER'']\<rparr>]\<rparr>"

definition exDegradeParsed :: DatabaseSchema where
  "exDegradeParsed =
     \<lparr>models =
        [\<lparr>mname = ''User'',
          mfields = [(exField ''id'' FT_string)\<lparr>isId := True\<rparr>,
                     (exField ''name'' FT_string)\<lparr>isRequired := False\<rparr>],
          mdescription = None\<rparr>],
      enums = []\<rparr>"

definition exSqlEnum :: EnumDef where
  "exSqlEnum = \<lparr>ename = ''State'', evalues = [''on'', ''off'']\<rparr>"

definition exSqlState :: Field where
  "exSqlState =
     (exField ''st'' FT_enum)\<lparr>isRequired := False, enumValues := Some [''on'', ''off'']\<rparr>"

definition exSqlOwner :: Field where
  "exSqlOwner =
     (exField ''o'' FT_relation)
       \<lparr>isRequired := False,
        relation := Some \<lparr>rmodel = ''Usr'', rtype = OneToOne, foreignKey = Some ''o''\<rparr>\<rparr>"

definition exSqlAcct :: Model where
  "exSqlAcct =
     \<lparr>mname = ''Acct'',
      mfields = [(exField ''id'' FT_number)\<lparr>isId := True\<rparr>, exSqlState, exSqlOwner],
      mdescription = None\<rparr>"

definition exSqlParsed :: DatabaseSchema where
  "exSqlParsed = \<lparr>models = [exSqlAcct], enums = [exSqlEnum]\<rparr>"

definition exSqlDegradeParsed :: DatabaseSchema where
  "exSqlDegradeParsed =
     \<lparr>models =
        [\<lparr>mname = ''T'',
          mfields = [(exField ''id'' FT_string)\<lparr>isId := True\<rparr>,
                     (exField ''email'' FT_string)\<lparr>isRequired := False\<rparr>],
          mdescription = None\<rparr>],
      enums = []\<rparr>"

text \<open>
  A \<^verbatim>\<open>CREATE TYPE\<close> statement with keywords in mixed case and a line break between them, the
  text with this statement after the table that uses the type, and the text with it before
  the table.
\<close>

definition exSqlStmt :: EnumStatement where
  "exSqlStmt =
     \<lparr>kwCreate = ''create'', sp1 = '' '', kwType = ''Type'', sp2 = ''  '', typeName = ''State'',
      sp3 = '' '', kwAs = ''as'', sp4 = [CHR 0x0A], kwEnum = ''ENUM'', sp5 = [],
      literalList = [CHR 0x27] @ ''on'' @ [CHR 0x27] @ '', '' @ [CHR 0x27] @ ''off'' @ [CHR 0x27]\<rparr>"








text \<open>Every field of the models of a state comes from \<open>parsePrismaField\<close>.\<close>

definition modelsFromFields :: "Model list \<Rightarrow> bool" where
  "modelsFromFields ms =
     (\<forall>m \<in> set ms. \<forall>f \<in> set (mfields m). \<exists>line known. parsePrismaField line known = Some f)"

text \<open>
  The lines of a block body that the loop of \<open>parsePrismaSchema\<close> collects: trimmed, not
  empty, no comment and no block-level annotation. A plain line is one that neither opens
  nor closes a block.
\<close>

definition keptBlockLines :: "string list \<Rightarrow> string list" where
  "keptBlockLines body =
     filter (\<lambda>t. t \<noteq> [] \<and> \<not> startsWith t ''//'' \<and> \<not> startsWith t ''@@'') (map trim body)"

definition plainLine :: "string \<Rightarrow> bool" where
  "plainLine l =
     (blockStart ''model'' (trim l) = None \<and> blockStart ''enum'' (trim l) = None \<and>
      trim l \<noteq> ''}'')"

section \<open>Lemmas on the helpers\<close>

lemma arraysEqual_iff: "arraysEqual a b \<longleftrightarrow> a = b"
proof
  assume "arraysEqual a b"
  then have "length a = length b" and "\<forall>i < length a. a ! i = b ! i"
    by (auto simp: arraysEqual_def list_all_iff split: if_splits)
  then show "a = b" by (simp add: nth_equalityI)
next
  assume "a = b"
  then show "arraysEqual a b" by (simp add: arraysEqual_def list_all_iff)
qed

lemma findTopEnum_find:
  "findTopEnum field schema =
     (case enumValues field of
        None \<Rightarrow> None
      | Some vs \<Rightarrow> find (\<lambda>e. evalues e = vs) (enums schema))"
proof (cases "enumValues field")
  case None
  have "find (\<lambda>e. False) xs = None" for xs :: "EnumDef list"
    by (induction xs) simp_all
  with None show ?thesis by (simp add: findTopEnum_def)
next
  case (Some vs)
  then show ?thesis by (simp add: findTopEnum_def arraysEqual_iff)
qed

lemma find_Some_mem: "find P xs = Some x \<Longrightarrow> x \<in> set xs \<and> P x"
  by (induction xs) (auto split: if_splits)

lemma find_None_all: "find P xs = None \<longleftrightarrow> (\<forall>x \<in> set xs. \<not> P x)"
  by (induction xs) auto

lemma find_ex_Some: "\<exists>x \<in> set xs. P x \<Longrightarrow> \<exists>y. find P xs = Some y"
  by (cases "find P xs") (auto simp: find_None_all)

lemma sublist_concat_map: "x \<in> set xs \<Longrightarrow> sublist (f x) (concat (map f xs))"
proof -
  assume "x \<in> set xs"
  then obtain ys zs where "xs = ys @ x # zs" by (auto dest: split_list)
  then have "concat (map f xs) = concat (map f ys) @ f x @ concat (map f zs)" by simp
  then show ?thesis unfolding sublist_def by blast
qed

lemma isAutoField_iff:
  "isAutoField f \<longleftrightarrow>
     isId f \<or> fname f \<in> {''createdAt'', ''updatedAt'', ''created_at'', ''updated_at''}"
  by (auto simp: isAutoField_def)

lemma createFields_spec:
  "zodCreateFields model = spec_createFields model"
  "tsCreateFields model = spec_createFields model"
  unfolding zodCreateFields_def zodDataFields_def tsCreateFields_def spec_createFields_def
  by (auto simp: isAutoField_iff intro!: filter_cong)

lemma lowerFirst_Role: "lowerFirst ''Role'' = ''role''"
  by code_simp

lemma tsBaseType_spec:
  assumes "\<not> isId f"
  shows "tsBaseType f mn schema = spec_tsBaseType f schema"
  using assms
  by (simp add: tsBaseType_def spec_tsBaseType_def findTopEnum_find
      split: FieldType.splits option.splits)

text \<open>
  The text of a list field whose base type is an inline union: the suffix stands after the
  last literal.
\<close>

lemma tsFieldType_inline_list:
  "tsFieldType (exInlineField\<lparr>isList := True\<rparr>) ''User'' exSchema =
     quoted ''S'' @ '' | '' @ quoted ''L'' @ ''[]''"
  by (simp add: tsFieldType_def tsBaseType_def findTopEnum_def arraysEqual_iff
      exInlineField_def exField_def exSchema_def exRole_def)

text \<open>Lines joined into a text: a run of lines stays a stretch of the text.\<close>

lemma join_append:
  "xs \<noteq> [] \<Longrightarrow> ys \<noteq> [] \<Longrightarrow> join sep (xs @ ys) = join sep xs @ sep @ join sep ys"
  by (induction sep xs rule: join.induct) (auto simp: neq_Nil_conv)

lemma sublist_join:
  assumes "sublist ys zs"
  shows "sublist (join sep ys) (join sep zs)"
proof -
  from assms obtain a c where z: "zs = a @ ys @ c" by (auto simp: sublist_def)
  show ?thesis
  proof (cases "ys = []")
    case True
    then show ?thesis by simp
  next
    case False
    have 1: "sublist (join sep ys) (join sep (ys @ c))"
    proof (cases "c = []")
      case True then show ?thesis by simp
    next
      case c: False
      show ?thesis unfolding join_append [OF False c] sublist_def by (metis append_Nil)
    qed
    have 2: "sublist (join sep (ys @ c)) (join sep (a @ ys @ c))"
    proof (cases "a = []")
      case True then show ?thesis by simp
    next
      case a: False
      from False have n: "ys @ c \<noteq> []" by simp
      show ?thesis unfolding join_append [OF a n] sublist_def by (metis append_Nil2 append.assoc)
    qed
    from 1 2 show ?thesis unfolding z by (rule sublist_order.order_trans)
  qed
qed

lemma mem_sublist_join: "l \<in> set ls \<Longrightarrow> sublist l (join sep ls)"
proof -
  assume "l \<in> set ls"
  then obtain a c where "ls = a @ [l] @ c" by (auto dest: split_list)
  then have "sublist [l] ls" unfolding sublist_def by blast
  from sublist_join [OF this, of sep] show ?thesis by simp
qed

text \<open>Where the lines of an enum and of a field stand in the lines of the generators.\<close>

lemma zodEnumLines_in_zodLines:
  "e \<in> set (enums schema) \<Longrightarrow> sublist (zodEnumLines config e) (zodLines schema config)"
proof -
  assume "e \<in> set (enums schema)"
  then have "sublist (zodEnumLines config e) (concat (map (zodEnumLines config) (enums schema)))"
    by (rule sublist_concat_map)
  then show ?thesis unfolding zodLines_def sublist_def by (metis append.assoc)
qed

lemma tsEnumLines_in_tsLines:
  "e \<in> set (enums schema) \<Longrightarrow> sublist (tsEnumLines config e) (tsLines schema config)"
proof -
  assume "e \<in> set (enums schema)"
  then have "sublist (tsEnumLines config e) (concat (map (tsEnumLines config) (enums schema)))"
    by (rule sublist_concat_map)
  then show ?thesis unfolding tsLines_def sublist_def by (metis append.assoc)
qed

lemma sublist_set: "sublist xs ys \<Longrightarrow> x \<in> set xs \<Longrightarrow> x \<in> set ys"
  by (auto simp: sublist_def)

lemma zodFieldLine_in_zodLines:
  assumes "model \<in> set (models schema)" and "field \<in> set (mfields model)"
    and "ftype field \<noteq> FT_relation"
  shows "zodFieldLine schema (strictMode config) field \<in> set (zodLines schema config)"
proof -
  from assms(2,3) have "zodFieldLine schema (strictMode config) field
      \<in> set (zodFullSchema config schema model)"
    by (simp add: zodFullSchema_def zodDataFields_def)
  then have "zodFieldLine schema (strictMode config) field
      \<in> set (zodModelLines config schema model)"
    by (simp add: zodModelLines_def)
  with assms(1) show ?thesis by (auto simp: zodLines_def)
qed

lemma tsFieldLine_in_tsLines:
  assumes "model \<in> set (models schema)" and "field \<in> set (mfields model)"
    and "ftype field \<noteq> FT_relation"
  shows "''  '' @ fname field @ optionalMark field @ '': '' @
           tsFieldType field (mname model) schema @ '';'' \<in> set (tsLines schema config)"
proof -
  from assms(2,3) have "''  '' @ fname field @ optionalMark field @ '': '' @
           tsFieldType field (mname model) schema @ '';''
      \<in> set (tsFullInterface config schema model)"
    by (auto simp: tsFullInterface_def tsFullFieldLines_def)
  with assms(1) show ?thesis by (auto simp: tsLines_def)
qed

text \<open>The two generators on the example schema.\<close>

lemma exZodLines_eval: "zodLines exSchema exConfig = exZodLines"
  by code_simp

lemma exTsLines_eval: "tsLines exSchema exConfig = exTsLines"
  by code_simp

section \<open>Properties of the generators\<close>

text \<open>
  Claim C1. For every schema and configuration, in both generators, the create construct of
  a model lists exactly the fields of \<open>spec_createFields\<close>: the non-relation fields that are
  neither the id field nor named \<^verbatim>\<open>createdAt\<close>, \<^verbatim>\<open>updatedAt\<close>, \<^verbatim>\<open>created_at\<close>, \<^verbatim>\<open>updated_at\<close>,
  in the model's order. The update construct is the create construct of the same model
  under the combinator that makes every field optional: \<^verbatim>\<open>.partial()\<close> of the create schema,
  \<^verbatim>\<open>Partial<...>\<close> of the create input. Both constructs stand in the rendered lines of
  every model of the schema, and in the text that \<open>generateZodSchemas\<close> and
  \<open>generateTypeDefinitions\<close> return: the text is the lines joined by line feeds, with the
  lines of the two constructs among them, so their text is a stretch of the returned text.
\<close>

theorem create_update_shape:
  assumes "model \<in> set (models schema)"
  shows "zodCreateFields model = spec_createFields model \<and>
         tsCreateFields model = spec_createFields model \<and>
         zodCreateSchema config schema model =
           (if includeComments config
            then [''/** Schema for creating a new '' @ mname model @ '' */''] else []) @
           [''export const create'' @ mname model @ ''Schema = z.object({''] @
           map (zodFieldLine schema (strictMode config)) (spec_createFields model) @
           [''});'', []] \<and>
         zodUpdateSchema config model =
           (if includeComments config
            then [''/** Schema for updating a '' @ mname model @ '' (all fields optional) */'']
            else []) @
           [''export const update'' @ mname model @ ''Schema = create'' @ mname model @
              ''Schema.partial();'', []] \<and>
         tsCreateInput config schema model =
           (if includeComments config
            then [''/** Input for creating a new '' @ mname model @ '' */''] else []) @
           [''export interface Create'' @ mname model @ ''Input {''] @
           map (tsCreateFieldLine schema model) (spec_createFields model) @
           [''}'', []] \<and>
         tsUpdateInput config model =
           (if includeComments config
            then [''/** Input for updating a '' @ mname model @ '' (all fields optional) */'']
            else []) @
           [''export type Update'' @ mname model @ ''Input = Partial<Create'' @ mname model @
              ''Input>;'', []] \<and>
         sublist (zodCreateSchema config schema model @ zodUpdateSchema config model)
                 (zodLines schema config) \<and>
         sublist (tsCreateInput config schema model) (tsLines schema config) \<and>
         sublist (tsUpdateInput config model) (tsLines schema config) \<and>
         (\<exists>before after.
            generateZodSchemas schema config =
              join [CHR 0x0A]
                (before @ zodCreateSchema config schema model @ zodUpdateSchema config model @
                 after)) \<and>
         (\<exists>before after.
            generateTypeDefinitions schema config =
              join [CHR 0x0A] (before @ tsCreateInput config schema model @ after)) \<and>
         (\<exists>before after.
            generateTypeDefinitions schema config =
              join [CHR 0x0A] (before @ tsUpdateInput config model @ after)) \<and>
         sublist (join [CHR 0x0A]
                    (zodCreateSchema config schema model @ zodUpdateSchema config model))
                 (generateZodSchemas schema config) \<and>
         sublist (join [CHR 0x0A] (tsCreateInput config schema model))
                 (generateTypeDefinitions schema config) \<and>
         sublist (join [CHR 0x0A] (tsUpdateInput config model))
                 (generateTypeDefinitions schema config)"
proof -
  have z: "sublist (zodCreateSchema config schema model @ zodUpdateSchema config model)
                   (zodModelLines config schema model)"
    unfolding zodModelLines_def sublist_def by (metis append.assoc)
  have "sublist (zodModelLines config schema model)
                (concat (map (zodModelLines config schema) (models schema)))"
    using assms by (rule sublist_concat_map)
  then have "sublist (zodModelLines config schema model) (zodLines schema config)"
    unfolding zodLines_def sublist_def by (metis append.assoc)
  with z have zs: "sublist (zodCreateSchema config schema model @ zodUpdateSchema config model)
                   (zodLines schema config)"
    by (rule sublist_order.order_trans)
  have "sublist (tsCreateInput config schema model)
                (concat (map (tsCreateInput config schema) (models schema)))"
    using assms by (rule sublist_concat_map)
  then have tc: "sublist (tsCreateInput config schema model) (tsLines schema config)"
    unfolding tsLines_def sublist_def by (metis append.assoc)
  have "sublist (tsUpdateInput config model)
                (concat (map (tsUpdateInput config) (models schema)))"
    using assms by (rule sublist_concat_map)
  then have tu: "sublist (tsUpdateInput config model) (tsLines schema config)"
    unfolding tsLines_def sublist_def by (metis append.assoc)
  have ze: "\<exists>before after.
            generateZodSchemas schema config =
              join [CHR 0x0A]
                (before @ zodCreateSchema config schema model @ zodUpdateSchema config model @
                 after)"
    using zs unfolding generateZodSchemas_def sublist_def by (metis append.assoc)
  have tce: "\<exists>before after.
            generateTypeDefinitions schema config =
              join [CHR 0x0A] (before @ tsCreateInput config schema model @ after)"
    using tc unfolding generateTypeDefinitions_def sublist_def by metis
  have tue: "\<exists>before after.
            generateTypeDefinitions schema config =
              join [CHR 0x0A] (before @ tsUpdateInput config model @ after)"
    using tu unfolding generateTypeDefinitions_def sublist_def by metis
  have zt: "sublist (join [CHR 0x0A]
                    (zodCreateSchema config schema model @ zodUpdateSchema config model))
                 (generateZodSchemas schema config)"
    unfolding generateZodSchemas_def using zs by (rule sublist_join)
  have tct: "sublist (join [CHR 0x0A] (tsCreateInput config schema model))
                 (generateTypeDefinitions schema config)"
    unfolding generateTypeDefinitions_def using tc by (rule sublist_join)
  have tut: "sublist (join [CHR 0x0A] (tsUpdateInput config model))
                 (generateTypeDefinitions schema config)"
    unfolding generateTypeDefinitions_def using tu by (rule sublist_join)
  have e1: "zodCreateFields model = spec_createFields model"
    and e2: "tsCreateFields model = spec_createFields model"
    by (rule createFields_spec)+
  have e3: "zodCreateSchema config schema model =
           (if includeComments config
            then [''/** Schema for creating a new '' @ mname model @ '' */''] else []) @
           [''export const create'' @ mname model @ ''Schema = z.object({''] @
           map (zodFieldLine schema (strictMode config)) (spec_createFields model) @
           [''});'', []]"
    by (simp add: createFields_spec zodCreateSchema_def)
  have e4: "zodUpdateSchema config model =
           (if includeComments config
            then [''/** Schema for updating a '' @ mname model @ '' (all fields optional) */'']
            else []) @
           [''export const update'' @ mname model @ ''Schema = create'' @ mname model @
              ''Schema.partial();'', []]"
    by (simp add: zodUpdateSchema_def)
  have e5: "tsCreateInput config schema model =
           (if includeComments config
            then [''/** Input for creating a new '' @ mname model @ '' */''] else []) @
           [''export interface Create'' @ mname model @ ''Input {''] @
           map (tsCreateFieldLine schema model) (spec_createFields model) @
           [''}'', []]"
    by (simp add: createFields_spec tsCreateInput_def)
  have e6: "tsUpdateInput config model =
           (if includeComments config
            then [''/** Input for updating a '' @ mname model @ '' (all fields optional) */'']
            else []) @
           [''export type Update'' @ mname model @ ''Input = Partial<Create'' @ mname model @
              ''Input>;'', []]"
    by (simp add: tsUpdateInput_def)
  show ?thesis
    by (intro conjI) (rule e1 e2 e3 e4 e5 e6 zs tc tu ze tce tue zt tct tut)+
qed

theorem create_update_shape_witness:
  "exUser \<in> set (models exSchema) \<and>
   zodCreateSchema exConfig exSchema exUser =
     [''export const createUserSchema = z.object({'', ''  email: z.string(),'',
      ''  role: roleSchema,'', ''});'', []] \<and>
   zodUpdateSchema exConfig exUser =
     [''export const updateUserSchema = createUserSchema.partial();'', []] \<and>
   tsCreateInput exConfig exSchema exUser =
     [''export interface CreateUserInput {'', ''  email: string;'', ''  role: Role;'',
      ''}'', []] \<and>
   tsUpdateInput exConfig exUser =
     [''export type UpdateUserInput = Partial<CreateUserInput>;'', []] \<and>
   sublist (zodCreateSchema exConfig exSchema exUser @ zodUpdateSchema exConfig exUser)
           (zodLines exSchema exConfig) \<and>
   generateZodSchemas exSchema exConfig = join [CHR 0x0A] exZodLines \<and>
   generateTypeDefinitions exSchema exConfig = join [CHR 0x0A] exTsLines \<and>
   sublist (join [CHR 0x0A]
              [''export const createUserSchema = z.object({'', ''  email: z.string(),'',
               ''  role: roleSchema,'', ''});'', [],
               ''export const updateUserSchema = createUserSchema.partial();'', []])
           (generateZodSchemas exSchema exConfig) \<and>
   sublist (join [CHR 0x0A]
              [''export interface CreateUserInput {'', ''  email: string;'', ''  role: Role;'',
               ''}'', []])
           (generateTypeDefinitions exSchema exConfig) \<and>
   sublist (join [CHR 0x0A] [''export type UpdateUserInput = Partial<CreateUserInput>;'', []])
           (generateTypeDefinitions exSchema exConfig)"
proof -
  have m: "exUser \<in> set (models exSchema)" by (simp add: exSchema_def)
  have f: "spec_createFields exUser =
             [exField ''email'' FT_string,
              (exField ''role'' FT_enum)\<lparr>enumValues := Some (evalues exRole)\<rparr>]"
    by (simp add: spec_createFields_def exUser_def exField_def)
  have n: "mname exUser = ''User''" by (simp add: exUser_def)
  have c: "\<not> includeComments exConfig" "\<not> strictMode exConfig"
    by (simp_all add: exConfig_def)
  have e: "enums exSchema = [exRole]" by (simp add: exSchema_def)
  note t = create_update_shape [OF m, of exConfig]
  from t have zc: "zodCreateSchema exConfig exSchema exUser =
     [''export const createUserSchema = z.object({'', ''  email: z.string(),'',
      ''  role: roleSchema,'', ''});'', []]"
    by (simp add: f n c e zodFieldLine_def zodFieldType_def zodBaseType_def findTopEnum_def
        arraysEqual_iff exField_def exRole_def lowerFirst_Role)
  from t have zu: "zodUpdateSchema exConfig exUser =
     [''export const updateUserSchema = createUserSchema.partial();'', []]"
    by (simp add: n c)
  from t have tc: "tsCreateInput exConfig exSchema exUser =
     [''export interface CreateUserInput {'', ''  email: string;'', ''  role: Role;'',
      ''}'', []]"
    by (simp add: f n c e tsCreateFieldLine_def tsFieldType_def tsBaseType_def
        findTopEnum_def arraysEqual_iff optionalMark_def exField_def exRole_def)
  from t have tu: "tsUpdateInput exConfig exUser =
     [''export type UpdateUserInput = Partial<CreateUserInput>;'', []]"
    by (simp add: n c)
  from t have sl:
    "sublist (zodCreateSchema exConfig exSchema exUser @ zodUpdateSchema exConfig exUser)
             (zodLines exSchema exConfig)"
    by blast
  have gz: "generateZodSchemas exSchema exConfig = join [CHR 0x0A] exZodLines"
    by (simp add: generateZodSchemas_def exZodLines_eval)
  have gt: "generateTypeDefinitions exSchema exConfig = join [CHR 0x0A] exTsLines"
    by (simp add: generateTypeDefinitions_def exTsLines_eval)
  from t have
    "sublist (join [CHR 0x0A]
                (zodCreateSchema exConfig exSchema exUser @ zodUpdateSchema exConfig exUser))
             (generateZodSchemas exSchema exConfig)"
    by blast
  then have s1: "sublist (join [CHR 0x0A]
              [''export const createUserSchema = z.object({'', ''  email: z.string(),'',
               ''  role: roleSchema,'', ''});'', [],
               ''export const updateUserSchema = createUserSchema.partial();'', []])
           (generateZodSchemas exSchema exConfig)"
    unfolding zc zu by simp
  from t have "sublist (join [CHR 0x0A] (tsCreateInput exConfig exSchema exUser))
                 (generateTypeDefinitions exSchema exConfig)"
    by blast
  then have s2: "sublist (join [CHR 0x0A]
              [''export interface CreateUserInput {'', ''  email: string;'', ''  role: Role;'',
               ''}'', []])
           (generateTypeDefinitions exSchema exConfig)"
    unfolding tc .
  from t have "sublist (join [CHR 0x0A] (tsUpdateInput exConfig exUser))
                 (generateTypeDefinitions exSchema exConfig)"
    by blast
  then have s3: "sublist (join [CHR 0x0A]
                   [''export type UpdateUserInput = Partial<CreateUserInput>;'', []])
           (generateTypeDefinitions exSchema exConfig)"
    unfolding tu .
  show ?thesis
    by (intro conjI) (rule m zc zu tc tu sl gz gt s1 s2 s3)+
qed



text \<open>
  Claim C7. In both generators a field of type \<open>enum\<close> that is not the id renders as follows.
  When its \<open>enumValues\<close> equal the values of some top-level enum, it renders as the name of
  the construct of a top-level enum with exactly these values (the first one in
  \<open>schema.enums\<close>, which is what \<open>findTopEnum\<close> returns): \<^verbatim>\<open><name>Schema\<close> with a lowered
  first letter for the validator, the enum's name for the type. The name is the one the
  generator declares for that enum: the line \<^verbatim>\<open>export const <name>Schema = z.enum([...]);\<close>
  over the field's values is among the lines of that enum in the output of
  \<open>generateZodSchemas\<close>, and the line \<^verbatim>\<open>export type <Name> = ...;\<close> over the field's values is
  among the lines of that enum in the output of \<open>generateTypeDefinitions\<close>. When no
  top-level enum has these values and the list is not empty, it renders inline over the
  values. When \<open>enumValues\<close> is absent, or empty with no top-level enum of no values, it
  renders as the plain string form. The base form is wrapped for a list field and for an
  optional field, and the line of the field stands in the output for every model that has
  the field.
\<close>

theorem enum_field_rendering:
  assumes "\<not> isId field" and "ftype field = FT_enum"
  shows "(\<forall>vs. enumValues field = Some vs \<and> (\<exists>e \<in> set (enums schema). evalues e = vs) \<longrightarrow>
            (\<exists>e \<in> set (enums schema). evalues e = vs \<and> findTopEnum field schema = Some e \<and>
               zodBaseType field schema strict = lowerFirst (ename e) @ ''Schema'' \<and>
               tsBaseType field modelName schema = ename e \<and>
               ''export const '' @ zodBaseType field schema strict @ '' = z.enum(['' @
                  join '', '' (map quoted vs) @ '']);'' \<in> set (zodEnumLines config e) \<and>
               sublist (zodEnumLines config e) (zodLines schema config) \<and>
               sublist (''export const '' @ zodBaseType field schema strict @ '' = z.enum(['' @
                          join '', '' (map quoted vs) @ '']);'')
                       (generateZodSchemas schema config) \<and>
               ''export type '' @ tsBaseType field modelName schema @ '' = '' @
                  join '' | '' (map quoted vs) @ '';'' \<in> set (tsEnumLines config e) \<and>
               sublist (tsEnumLines config e) (tsLines schema config) \<and>
               sublist (''export type '' @ tsBaseType field modelName schema @ '' = '' @
                          join '' | '' (map quoted vs) @ '';'')
                       (generateTypeDefinitions schema config))) \<and>
         (\<forall>vs. enumValues field = Some vs \<and> (\<forall>e \<in> set (enums schema). evalues e \<noteq> vs) \<and>
               vs \<noteq> [] \<longrightarrow>
            zodBaseType field schema strict =
              ''z.enum(['' @ join '', '' (map quoted vs) @ ''])'' \<and>
            tsBaseType field modelName schema = join '' | '' (map quoted vs)) \<and>
         (enumValues field = None \<or>
          (enumValues field = Some [] \<and> (\<forall>e \<in> set (enums schema). evalues e \<noteq> [])) \<longrightarrow>
            zodBaseType field schema strict = ''z.string()'' \<and>
            tsBaseType field modelName schema = ''string'') \<and>
         zodFieldType field schema strict =
           (if isList field then ''z.array('' @ zodBaseType field schema strict @ '')''
            else zodBaseType field schema strict) @
           (if isRequired field then [] else ''.optional()'') \<and>
         tsFieldType field modelName schema =
           tsBaseType field modelName schema @ (if isList field then ''[]'' else []) \<and>
         (\<forall>model \<in> set (models schema). field \<in> set (mfields model) \<longrightarrow>
            ''  '' @ fname field @ '': '' @ zodFieldType field schema (strictMode config) @ '',''
              \<in> set (zodLines schema config) \<and>
            sublist (''  '' @ fname field @ '': '' @
                       zodFieldType field schema (strictMode config) @ '','')
                    (generateZodSchemas schema config) \<and>
            ''  '' @ fname field @ (if isRequired field then [] else ''?'') @ '': '' @
               tsFieldType field (mname model) schema @ '';'' \<in> set (tsLines schema config) \<and>
            sublist (''  '' @ fname field @ (if isRequired field then [] else ''?'') @ '': '' @
                       tsFieldType field (mname model) schema @ '';'')
                    (generateTypeDefinitions schema config))"
proof (intro conjI allI impI ballI)
  fix vs
  assume a: "enumValues field = Some vs \<and> (\<exists>e \<in> set (enums schema). evalues e = vs)"
  then obtain e where e: "find (\<lambda>e. evalues e = vs) (enums schema) = Some e"
    using find_ex_Some [of "enums schema" "\<lambda>e. evalues e = vs"] by blast
  then have m: "e \<in> set (enums schema)" and v: "evalues e = vs"
    using find_Some_mem [OF e] by simp_all
  have f: "findTopEnum field schema = Some e"
    using a e by (simp add: findTopEnum_find)
  have zb: "zodBaseType field schema strict = lowerFirst (ename e) @ ''Schema''"
    using assms f by (simp add: zodBaseType_def)
  have tb: "tsBaseType field modelName schema = ename e"
    using assms f by (simp add: tsBaseType_def)
  have zl: "''export const '' @ zodBaseType field schema strict @ '' = z.enum(['' @
              join '', '' (map quoted vs) @ '']);'' \<in> set (zodEnumLines config e)"
    unfolding zb by (simp add: zodEnumLines_def v)
  have zs: "sublist (zodEnumLines config e) (zodLines schema config)"
    using m by (rule zodEnumLines_in_zodLines)
  have zt: "sublist (''export const '' @ zodBaseType field schema strict @ '' = z.enum(['' @
                       join '', '' (map quoted vs) @ '']);'')
                    (generateZodSchemas schema config)"
    unfolding generateZodSchemas_def
    by (rule mem_sublist_join) (rule sublist_set [OF zs zl])
  have tl: "''export type '' @ tsBaseType field modelName schema @ '' = '' @
              join '' | '' (map quoted vs) @ '';'' \<in> set (tsEnumLines config e)"
    unfolding tb by (simp add: tsEnumLines_def v)
  have ts: "sublist (tsEnumLines config e) (tsLines schema config)"
    using m by (rule tsEnumLines_in_tsLines)
  have tt: "sublist (''export type '' @ tsBaseType field modelName schema @ '' = '' @
                       join '' | '' (map quoted vs) @ '';'')
                    (generateTypeDefinitions schema config)"
    unfolding generateTypeDefinitions_def
    by (rule mem_sublist_join) (rule sublist_set [OF ts tl])
  show "\<exists>e \<in> set (enums schema). evalues e = vs \<and> findTopEnum field schema = Some e \<and>
               zodBaseType field schema strict = lowerFirst (ename e) @ ''Schema'' \<and>
               tsBaseType field modelName schema = ename e \<and>
               ''export const '' @ zodBaseType field schema strict @ '' = z.enum(['' @
                  join '', '' (map quoted vs) @ '']);'' \<in> set (zodEnumLines config e) \<and>
               sublist (zodEnumLines config e) (zodLines schema config) \<and>
               sublist (''export const '' @ zodBaseType field schema strict @ '' = z.enum(['' @
                          join '', '' (map quoted vs) @ '']);'')
                       (generateZodSchemas schema config) \<and>
               ''export type '' @ tsBaseType field modelName schema @ '' = '' @
                  join '' | '' (map quoted vs) @ '';'' \<in> set (tsEnumLines config e) \<and>
               sublist (tsEnumLines config e) (tsLines schema config) \<and>
               sublist (''export type '' @ tsBaseType field modelName schema @ '' = '' @
                          join '' | '' (map quoted vs) @ '';'')
                       (generateTypeDefinitions schema config)"
    by (rule bexI [OF _ m]) (intro conjI, (rule v f zb tb zl zs zt tl ts tt)+)
next
  fix vs
  assume a: "enumValues field = Some vs \<and> (\<forall>e \<in> set (enums schema). evalues e \<noteq> vs) \<and>
               vs \<noteq> []"
  then have n: "findTopEnum field schema = None"
    by (simp add: findTopEnum_find find_None_all)
  from a n assms show "zodBaseType field schema strict =
              ''z.enum(['' @ join '', '' (map quoted vs) @ ''])''"
    by (simp add: zodBaseType_def)
  from a n assms show "tsBaseType field modelName schema = join '' | '' (map quoted vs)"
    by (simp add: tsBaseType_def)
next
  assume a: "enumValues field = None \<or>
          (enumValues field = Some [] \<and> (\<forall>e \<in> set (enums schema). evalues e \<noteq> []))"
  then have n: "findTopEnum field schema = None"
    by (auto simp: findTopEnum_find find_None_all)
  from a n assms show "zodBaseType field schema strict = ''z.string()''"
    by (auto simp: zodBaseType_def)
  from a n assms show "tsBaseType field modelName schema = ''string''"
    by (auto simp: tsBaseType_def)
next
  show "zodFieldType field schema strict =
           (if isList field then ''z.array('' @ zodBaseType field schema strict @ '')''
            else zodBaseType field schema strict) @
           (if isRequired field then [] else ''.optional()'')"
    by (simp add: zodFieldType_def)
  show "tsFieldType field modelName schema =
           tsBaseType field modelName schema @ (if isList field then ''[]'' else [])"
    by (simp add: tsFieldType_def)
next
  fix model
  assume m: "model \<in> set (models schema)" and f: "field \<in> set (mfields model)"
  from assms(2) have r: "ftype field \<noteq> FT_relation" by simp
  from zodFieldLine_in_zodLines [OF m f r, of config]
  show z: "''  '' @ fname field @ '': '' @ zodFieldType field schema (strictMode config) @ '',''
              \<in> set (zodLines schema config)"
    by (simp add: zodFieldLine_def)
  show "sublist (''  '' @ fname field @ '': '' @
                       zodFieldType field schema (strictMode config) @ '','')
                    (generateZodSchemas schema config)"
    unfolding generateZodSchemas_def using z by (rule mem_sublist_join)
  from tsFieldLine_in_tsLines [OF m f r, of config]
  show t: "''  '' @ fname field @ (if isRequired field then [] else ''?'') @ '': '' @
               tsFieldType field (mname model) schema @ '';'' \<in> set (tsLines schema config)"
    by (simp add: optionalMark_def)
  show "sublist (''  '' @ fname field @ (if isRequired field then [] else ''?'') @ '': '' @
                       tsFieldType field (mname model) schema @ '';'')
                    (generateTypeDefinitions schema config)"
    unfolding generateTypeDefinitions_def using t by (rule mem_sublist_join)
qed

theorem enum_field_rendering_witness:
  "zodBaseType exRoleField exSchema True = ''roleSchema'' \<and>
   tsBaseType exRoleField ''User'' exSchema = ''Role'' \<and>
   zodBaseType exInlineField exSchema True =
     ''z.enum(['' @ quoted ''S'' @ '', '' @ quoted ''L'' @ ''])'' \<and>
   tsBaseType exInlineField ''User'' exSchema = quoted ''S'' @ '' | '' @ quoted ''L'' \<and>
   zodBaseType (exField ''kind'' FT_enum) exSchema True = ''z.string()'' \<and>
   tsBaseType (exField ''kind'' FT_enum) ''User'' exSchema = ''string'' \<and>
   ''export const roleSchema = z.enum(['' @ quoted ''ADMIN'' @ '', '' @ quoted ''EDITOR'' @
      '', '' @ quoted ''AUTHOR'' @ '']);'' \<in> set (zodLines exSchema exConfig) \<and>
   sublist (''export const roleSchema = z.enum(['' @ quoted ''ADMIN'' @ '', '' @
              quoted ''EDITOR'' @ '', '' @ quoted ''AUTHOR'' @ '']);'')
           (generateZodSchemas exSchema exConfig) \<and>
   ''export type Role = '' @ quoted ''ADMIN'' @ '' | '' @ quoted ''EDITOR'' @ '' | '' @
      quoted ''AUTHOR'' @ '';'' \<in> set (tsLines exSchema exConfig) \<and>
   sublist (''export type Role = '' @ quoted ''ADMIN'' @ '' | '' @ quoted ''EDITOR'' @
              '' | '' @ quoted ''AUTHOR'' @ '';'')
           (generateTypeDefinitions exSchema exConfig) \<and>
   ''  role: roleSchema,'' \<in> set (zodLines exSchema exConfig) \<and>
   sublist ''  role: roleSchema,'' (generateZodSchemas exSchema exConfig) \<and>
   ''  role: Role;'' \<in> set (tsLines exSchema exConfig) \<and>
   sublist ''  role: Role;'' (generateTypeDefinitions exSchema exConfig)"
proof -
  have e: "enums exSchema = [exRole]" by (simp add: exSchema_def)
  have r: "\<not> isId exRoleField" "ftype exRoleField = FT_enum"
          "enumValues exRoleField = Some (evalues exRole)"
    by (simp_all add: exRoleField_def exField_def)
  have i: "\<not> isId exInlineField" "ftype exInlineField = FT_enum"
          "enumValues exInlineField = Some [''S'', ''L'']"
    by (simp_all add: exInlineField_def exField_def)
  have k: "\<not> isId (exField ''kind'' FT_enum)" "ftype (exField ''kind'' FT_enum) = FT_enum"
          "enumValues (exField ''kind'' FT_enum) = None"
    by (simp_all add: exField_def)
  have u: "exUser \<in> set (models exSchema)" "exRoleField \<in> set (mfields exUser)"
    by (simp_all add: exSchema_def exUser_def exRoleField_def)
  have q: "isRequired exRoleField" "\<not> isList exRoleField" "fname exRoleField = ''role''"
          "mname exUser = ''User''"
    by (simp_all add: exRoleField_def exField_def exUser_def)
  have v: "join '', '' (map quoted (evalues exRole)) =
             quoted ''ADMIN'' @ '', '' @ quoted ''EDITOR'' @ '', '' @ quoted ''AUTHOR''"
          "join '' | '' (map quoted (evalues exRole)) =
             quoted ''ADMIN'' @ '' | '' @ quoted ''EDITOR'' @ '' | '' @ quoted ''AUTHOR''"
    by (simp_all add: exRole_def)
  have p: "enumValues exRoleField = Some (evalues exRole) \<and>
           (\<exists>e \<in> set (enums exSchema). evalues e = evalues exRole)"
    by (simp add: r e)
  have a: "zodBaseType exRoleField exSchema s = lowerFirst (ename exRole) @ ''Schema'' \<and>
        tsBaseType exRoleField ''User'' exSchema = ename exRole \<and>
        ''export const '' @ zodBaseType exRoleField exSchema s @ '' = z.enum(['' @
           join '', '' (map quoted (evalues exRole)) @ '']);'' \<in> set (zodEnumLines exConfig exRole) \<and>
        sublist (zodEnumLines exConfig exRole) (zodLines exSchema exConfig) \<and>
        sublist (''export const '' @ zodBaseType exRoleField exSchema s @ '' = z.enum(['' @
                   join '', '' (map quoted (evalues exRole)) @ '']);'')
                (generateZodSchemas exSchema exConfig) \<and>
        ''export type '' @ tsBaseType exRoleField ''User'' exSchema @ '' = '' @
           join '' | '' (map quoted (evalues exRole)) @ '';'' \<in> set (tsEnumLines exConfig exRole) \<and>
        sublist (tsEnumLines exConfig exRole) (tsLines exSchema exConfig) \<and>
        sublist (''export type '' @ tsBaseType exRoleField ''User'' exSchema @ '' = '' @
                   join '' | '' (map quoted (evalues exRole)) @ '';'')
                (generateTypeDefinitions exSchema exConfig)" for s
  proof -
    from enum_field_rendering [OF r(1,2), of exSchema s "''User''" exConfig,
                               THEN conjunct1, rule_format, OF p]
    obtain x where "x \<in> set (enums exSchema)"
      and x: "zodBaseType exRoleField exSchema s = lowerFirst (ename x) @ ''Schema'' \<and>
        tsBaseType exRoleField ''User'' exSchema = ename x \<and>
        ''export const '' @ zodBaseType exRoleField exSchema s @ '' = z.enum(['' @
           join '', '' (map quoted (evalues exRole)) @ '']);'' \<in> set (zodEnumLines exConfig x) \<and>
        sublist (zodEnumLines exConfig x) (zodLines exSchema exConfig) \<and>
        sublist (''export const '' @ zodBaseType exRoleField exSchema s @ '' = z.enum(['' @
                   join '', '' (map quoted (evalues exRole)) @ '']);'')
                (generateZodSchemas exSchema exConfig) \<and>
        ''export type '' @ tsBaseType exRoleField ''User'' exSchema @ '' = '' @
           join '' | '' (map quoted (evalues exRole)) @ '';'' \<in> set (tsEnumLines exConfig x) \<and>
        sublist (tsEnumLines exConfig x) (tsLines exSchema exConfig) \<and>
        sublist (''export type '' @ tsBaseType exRoleField ''User'' exSchema @ '' = '' @
                   join '' | '' (map quoted (evalues exRole)) @ '';'')
                (generateTypeDefinitions exSchema exConfig)"
      by (elim bexE conjE) (rule that, assumption, (intro conjI; assumption))
    then have "x = exRole" by (simp add: e)
    with x show ?thesis by (rule_tac subst [where P = "\<lambda>y. _ y"]) auto
  qed
  note t = enum_field_rendering [OF r(1,2), of exSchema True "''User''" exConfig]
  have n: "lowerFirst (ename exRole) @ ''Schema'' = ''roleSchema''" "ename exRole = ''Role''"
    by (simp_all add: exRole_def lowerFirst_Role)
  note c1 = a [of True, THEN conjunct1]
  note c2 = a [of True, THEN conjunct2, THEN conjunct1]
  note c3 = a [of True, THEN conjunct2, THEN conjunct2, THEN conjunct1]
  note c4 = a [of True, THEN conjunct2, THEN conjunct2, THEN conjunct2, THEN conjunct1]
  note c5 = a [of True, THEN conjunct2, THEN conjunct2, THEN conjunct2, THEN conjunct2, THEN conjunct1]
  note c6 = a [of True, THEN conjunct2, THEN conjunct2, THEN conjunct2, THEN conjunct2, THEN conjunct2,
               THEN conjunct1]
  note c7 = a [of True, THEN conjunct2, THEN conjunct2, THEN conjunct2, THEN conjunct2, THEN conjunct2,
               THEN conjunct2, THEN conjunct1]
  note c8 = a [of True, THEN conjunct2, THEN conjunct2, THEN conjunct2, THEN conjunct2, THEN conjunct2,
               THEN conjunct2, THEN conjunct2]
  have a1: "zodBaseType exRoleField exSchema True = ''roleSchema''"
    using c1 n(1) by (rule trans)
  have a2: "tsBaseType exRoleField ''User'' exSchema = ''Role''"
    using c2 n(2) by (rule trans)
  have a3: "''export const roleSchema = z.enum(['' @ quoted ''ADMIN'' @ '', '' @
      quoted ''EDITOR'' @ '', '' @ quoted ''AUTHOR'' @ '']);'' \<in> set (zodLines exSchema exConfig)"
    using sublist_set [OF c4 c3] unfolding a1 v by simp
  have a4: "sublist (''export const roleSchema = z.enum(['' @ quoted ''ADMIN'' @ '', '' @
              quoted ''EDITOR'' @ '', '' @ quoted ''AUTHOR'' @ '']);'')
           (generateZodSchemas exSchema exConfig)"
    using c5 unfolding a1 v by simp
  have a5: "''export type Role = '' @ quoted ''ADMIN'' @ '' | '' @ quoted ''EDITOR'' @
      '' | '' @ quoted ''AUTHOR'' @ '';'' \<in> set (tsLines exSchema exConfig)"
    using sublist_set [OF c7 c6] unfolding a2 v by simp
  have a6: "sublist (''export type Role = '' @ quoted ''ADMIN'' @ '' | '' @
              quoted ''EDITOR'' @ '' | '' @ quoted ''AUTHOR'' @ '';'')
           (generateTypeDefinitions exSchema exConfig)"
    using c8 unfolding a2 v by simp
  have zf: "zodFieldType exRoleField exSchema (strictMode exConfig) = ''roleSchema''"
    using enum_field_rendering [OF r(1,2), of exSchema "strictMode exConfig" "''User''" exConfig,
            THEN conjunct2, THEN conjunct2, THEN conjunct2, THEN conjunct1]
          a [of "strictMode exConfig", THEN conjunct1]
    by (simp add: q n lowerFirst_Role)
  have tf: "tsFieldType exRoleField ''User'' exSchema = ''Role''"
    using t [THEN conjunct2, THEN conjunct2, THEN conjunct2, THEN conjunct2, THEN conjunct1] a2
    by (simp add: q)
  from t u have b: "''  '' @ fname exRoleField @ '': '' @
           zodFieldType exRoleField exSchema (strictMode exConfig) @ '',''
              \<in> set (zodLines exSchema exConfig) \<and>
            sublist (''  '' @ fname exRoleField @ '': '' @
                       zodFieldType exRoleField exSchema (strictMode exConfig) @ '','')
                    (generateZodSchemas exSchema exConfig) \<and>
            ''  '' @ fname exRoleField @ (if isRequired exRoleField then [] else ''?'') @ '': '' @
               tsFieldType exRoleField (mname exUser) exSchema @ '';''
              \<in> set (tsLines exSchema exConfig) \<and>
            sublist (''  '' @ fname exRoleField @
                       (if isRequired exRoleField then [] else ''?'') @ '': '' @
                       tsFieldType exRoleField (mname exUser) exSchema @ '';'')
                    (generateTypeDefinitions exSchema exConfig)"
    by blast
  from b have b1: "''  role: roleSchema,'' \<in> set (zodLines exSchema exConfig)"
    and b2: "sublist ''  role: roleSchema,'' (generateZodSchemas exSchema exConfig)"
    and b3: "''  role: Role;'' \<in> set (tsLines exSchema exConfig)"
    and b4: "sublist ''  role: Role;'' (generateTypeDefinitions exSchema exConfig)"
    by (simp_all add: zf tf q)
  from enum_field_rendering [OF i(1,2), of exSchema True "''User''" exConfig]
  have c: "zodBaseType exInlineField exSchema True =
          ''z.enum(['' @ quoted ''S'' @ '', '' @ quoted ''L'' @ ''])'' \<and>
        tsBaseType exInlineField ''User'' exSchema = quoted ''S'' @ '' | '' @ quoted ''L''"
    by (simp add: i e exRole_def)
  from enum_field_rendering [OF k(1,2), of exSchema True "''User''" exConfig]
  have d: "zodBaseType (exField ''kind'' FT_enum) exSchema True = ''z.string()'' \<and>
        tsBaseType (exField ''kind'' FT_enum) ''User'' exSchema = ''string''"
    by (simp add: k)
  show ?thesis
    by (intro conjI)
       (rule a1 a2 a3 a4 a5 a6 b1 b2 b3 b4 c [THEN conjunct1] c [THEN conjunct2]
             d [THEN conjunct1] d [THEN conjunct2])+
qed

text \<open>
  Claim C8 says that the full interface maps every non-relation field by the type table.
  It does not hold of the id field: \<open>tsBaseType\<close> returns the branded type \<^verbatim>\<open><Model>Id\<close> for a
  field with \<open>isId\<close> before it looks at the field's type. The id field of type \<open>string\<close> of
  the model \<^verbatim>\<open>User\<close> is rendered \<^verbatim>\<open>id: UserId;\<close>, where the table gives \<^verbatim>\<open>string\<close>.
\<close>

theorem tsFullInterface_id_counterexample:
  "ftype exIdField \<noteq> FT_relation \<and>
   tsFullInterface exConfig exSchema \<lparr>mname = ''User'', mfields = [exIdField], mdescription = None\<rparr> =
     [''export interface User {'', ''  id: UserId;'', ''}'', []] \<and>
   tsBaseType exIdField ''User'' exSchema = ''UserId'' \<and>
   spec_tsBaseType exIdField exSchema = ''string'' \<and>
   tsBaseType exIdField ''User'' exSchema \<noteq> spec_tsBaseType exIdField exSchema"
  by (simp add: tsFullInterface_def tsFullFieldLines_def tsFieldType_def tsBaseType_def
      spec_tsBaseType_def optionalMark_def exIdField_def exField_def exConfig_def)

text \<open>
  Claim C8, amended. The full interface of a model has one line for every non-relation
  field, in order, after the field's doc line if there is one: the field's name, \<^verbatim>\<open>?\<close> when
  the field is not required, and its type. The type of a field that is not the id is given
  by the type table \<open>spec_tsBaseType\<close>, followed by \<^verbatim>\<open>[]\<close> for a list field (stated for the
  list fields whose base type is not an inline union of two or more literals). The type
  of the id field is the branded type \<^verbatim>\<open><Model>Id\<close>.
\<close>

theorem tsFullInterface_fields:
  "tsFullInterface config schema model =
     (if includeComments config then [''/** Full '' @ mname model @ '' entity */''] else []) @
     [''export interface '' @ mname model @ '' {''] @
     concat (map (\<lambda>f. (case description f of
                         Some d \<Rightarrow> if includeComments config \<and> d \<noteq> []
                                   then [''  /** '' @ d @ '' */''] else []
                       | None \<Rightarrow> []) @
                      [''  '' @ fname f @ (if isRequired f then [] else ''?'') @ '': '' @
                         tsFieldType f (mname model) schema @ '';''])
                 (filter (\<lambda>f. ftype f \<noteq> FT_relation) (mfields model))) @
     [''}'', []] \<and>
   (ftype f \<noteq> FT_relation \<and> \<not> isId f \<and> \<not> isList f \<longrightarrow>
      tsFieldType f mn schema = spec_tsBaseType f schema) \<and>
   (ftype f \<noteq> FT_relation \<and> \<not> isId f \<and> isList f \<and> \<not> tsInlineUnion f schema \<longrightarrow>
      tsFieldType f mn schema = spec_tsBaseType f schema @ ''[]'') \<and>
   (isId f \<longrightarrow> tsFieldType f mn schema = mn @ ''Id'' @ (if isList f then ''[]'' else []))"
proof -
  have "tsFullFieldLines config schema model =
        (\<lambda>f. (case description f of
                         Some d \<Rightarrow> if includeComments config \<and> d \<noteq> []
                                   then [''  /** '' @ d @ '' */''] else []
                       | None \<Rightarrow> []) @
                      [''  '' @ fname f @ (if isRequired f then [] else ''?'') @ '': '' @
                         tsFieldType f (mname model) schema @ '';''])"
    by (rule ext) (simp add: tsFullFieldLines_def optionalMark_def)
  then show ?thesis
    by (simp add: tsFullInterface_def tsFieldType_def tsBaseType_spec)
       (simp add: tsBaseType_def)
qed

theorem tsFullInterface_fields_witness:
  "tsFullInterface exConfig exSchema
     \<lparr>mname = ''User'', mfields = [exIdField, exField ''email'' FT_string, exTagsField,
        (exField ''posts'' FT_relation)\<lparr>isList := True\<rparr>], mdescription = None\<rparr> =
     [''export interface User {'', ''  id: UserId;'', ''  email: string;'',
      ''  tags?: string[];'', ''}'', []] \<and>
   tsFieldType (exField ''email'' FT_string) ''User'' exSchema = ''string'' \<and>
   tsFieldType exTagsField ''User'' exSchema = ''string[]'' \<and>
   tsFieldType exIdField ''User'' exSchema = ''UserId''"
proof -
  let ?m = "\<lparr>mname = ''User'', mfields = [exIdField, exField ''email'' FT_string, exTagsField,
        (exField ''posts'' FT_relation)\<lparr>isList := True\<rparr>], mdescription = None\<rparr>"
  have s: "spec_tsBaseType (exField ''email'' FT_string) exSchema = ''string''"
          "spec_tsBaseType exTagsField exSchema = ''string''"
    by (simp_all add: spec_tsBaseType_def exField_def exTagsField_def)
  have a: "tsFieldType (exField ''email'' FT_string) ''User'' exSchema = ''string''"
    using tsFullInterface_fields [of exConfig exSchema ?m "exField ''email'' FT_string" "''User''"]
    by (simp add: s) (simp add: exField_def)
  have b: "tsFieldType exTagsField ''User'' exSchema = ''string[]''"
    using tsFullInterface_fields [of exConfig exSchema ?m exTagsField "''User''"]
    by (simp add: s) (simp add: exField_def exTagsField_def tsInlineUnion_def)
  have c: "tsFieldType exIdField ''User'' exSchema = ''UserId''"
    using tsFullInterface_fields [of exConfig exSchema ?m exIdField "''User''"]
    by (simp add: exField_def exIdField_def)
  have "tsFullInterface exConfig exSchema ?m =
     [''export interface User {'', ''  id: UserId;'', ''  email: string;'',
      ''  tags?: string[];'', ''}'', []]"
    using tsFullInterface_fields [of exConfig exSchema ?m exIdField "''User''"] a b c
    by (simp add: exConfig_def) (simp add: exField_def exIdField_def exTagsField_def)
  with a b c show ?thesis by blast
qed

section \<open>Lemmas on the parsers\<close>

lemma typeMapLookup_cases:
  "typeMapLookup tm n fb \<in> snd ` set tm \<union> {FT_other, fb}"
  by (auto simp: typeMapLookup_def split: option.splits dest!: map_of_SomeD intro: rev_image_eqI)

lemma typeMapLookup_neq:
  "x \<notin> snd ` set tm \<Longrightarrow> x \<noteq> FT_other \<Longrightarrow> x \<noteq> fb \<Longrightarrow> typeMapLookup tm n fb \<noteq> x"
  using typeMapLookup_cases [of tm n fb] by auto

lemma mapSqlType_not_relation: "mapSqlType t \<noteq> FT_relation"
  unfolding mapSqlType_def by (rule typeMapLookup_neq) simp_all

lemma parsePrismaField_relation:
  assumes "parsePrismaField line known = Some f"
  shows "\<exists>name rawType marked. prismaFieldMatch line = Some (name, rawType, marked) \<and>
           isList f = marked \<and>
           (if ftype f = FT_relation
            then \<exists>fk. relation f = Some \<lparr>rmodel = rawType,
                          rtype = (if marked then OneToMany else OneToOne), foreignKey = fk\<rparr>
            else relation f = None)"
  using assms
  by (auto simp: parsePrismaField_def Let_def split: option.splits if_splits)

lemma parseSqlColumn_relation:
  assumes "parseSqlColumn def known = Some f"
  shows "\<not> isList f \<and>
         (if ftype f = FT_relation
          then \<exists>mo fk. relation f = Some \<lparr>rmodel = mo, rtype = OneToOne, foreignKey = fk\<rparr>
          else relation f = None)"
  using assms mapSqlType_not_relation
  by (auto simp: parseSqlColumn_def Let_def split: option.splits if_splits)

lemma parseModelFields_source:
  "f \<in> set (parseModelFields lines known) \<Longrightarrow>
     \<exists>line \<in> set lines. parsePrismaField line known = Some f"
  by (induction lines) (auto split: option.splits)

lemma parseSqlColumnDefs_source:
  "f \<in> set (parseSqlColumnDefs defs known) \<Longrightarrow>
     \<exists>d \<in> set defs. \<not> isConstraintDef (trim d) \<and> parseSqlColumn (trim d) known = Some f"
  by (induction defs) (auto simp: Let_def split: option.splits if_splits)

lemma prismaStep_modelsFromFields:
  "modelsFromFields (pmodels st) \<Longrightarrow> modelsFromFields (pmodels (prismaStep st line))"
  unfolding modelsFromFields_def
  by (auto simp: prismaStep_def closeBlock_def Let_def
      split: option.splits BlockType.splits if_splits)
     (blast dest: parseModelFields_source)+

lemma foldl_modelsFromFields:
  "modelsFromFields (pmodels st) \<Longrightarrow> modelsFromFields (pmodels (foldl prismaStep st lines))"
  by (induction lines arbitrary: st) (simp_all add: prismaStep_modelsFromFields)

lemma parsePrismaSchema_source:
  assumes "m \<in> set (models (parsePrismaSchema input))" and "f \<in> set (mfields m)"
  shows "\<exists>line known. parsePrismaField line known = Some f"
proof -
  have "modelsFromFields (pmodels prismaInit)"
    by (simp add: modelsFromFields_def prismaInit_def)
  then have "modelsFromFields (pmodels (foldl prismaStep prismaInit (splitChar CHR 0x0A input)))"
    by (rule foldl_modelsFromFields)
  with assms show ?thesis
    by (simp add: parsePrismaSchema_def parsePrismaLines_def Let_def modelsFromFields_def)
qed

lemma parseSqlSchema_source:
  assumes "m \<in> set (models (parseSqlSchema input))" and "f \<in> set (mfields m)"
  shows "\<exists>groups d. groups \<in> set (tableExecAll input) \<and>
           m = sqlModelOf (enums (parseSqlSchema input)) groups \<and>
           d \<in> set (splitColumns (snd groups)) \<and> \<not> isConstraintDef (trim d) \<and>
           parseSqlColumn (trim d) (enums (parseSqlSchema input)) = Some f"
proof -
  let ?en = "enums (parseSqlSchema input)"
  from assms(1) obtain groups where g: "groups \<in> set (tableExecAll input)"
    and m: "m = sqlModelOf ?en groups"
    by (auto simp: parseSqlSchema_def Let_def)
  from assms(2) m have "f \<in> set (parseSqlColumnDefs (splitColumns (snd groups)) ?en)"
    by (simp add: sqlModelOf_def parseSqlColumns_def)
  from parseSqlColumnDefs_source [OF this] g m show ?thesis by blast
qed

text \<open>The loops of \<open>parseSqlSchema\<close>, one \<^verbatim>\<open>exec\<close> at a time.\<close>

lemma enumExecAll_None: "regexSearch enumRegexAt s = None \<Longrightarrow> enumExecAll s = []"
  by (subst enumExecAll.simps) simp

lemma enumExecAll_Some:
  "regexSearch enumRegexAt s = Some (g, r) \<Longrightarrow> enumExecAll s = g # enumExecAll r"
  by (subst enumExecAll.simps) simp

lemma tableExecAll_None: "regexSearch tableRegexAt s = None \<Longrightarrow> tableExecAll s = []"
  by (subst tableExecAll.simps) simp

lemma tableExecAll_Some:
  "regexSearch tableRegexAt s = Some (g, r) \<Longrightarrow> tableExecAll s = g # tableExecAll r"
  by (subst tableExecAll.simps) simp

text \<open>The parsers on the example texts.\<close>

lemma exPrismaDoc_parse: "parsePrismaSchema exPrismaDoc = exPrismaParsed"
  by code_simp

lemma exDegradeDoc_parse: "parsePrismaSchema exDegradeDoc = exDegradeParsed"
  by code_simp

lemma exSqlDoc_enums:
  "enumExecAll exSqlDoc =
     [(''State'', [CHR 0x27] @ ''on'' @ [CHR 0x27] @ '', '' @ [CHR 0x27] @ ''off'' @ [CHR 0x27])]"
proof -
  have "regexSearch enumRegexAt exSqlDoc =
          Some ((''State'', [CHR 0x27] @ ''on'' @ [CHR 0x27] @ '', '' @ [CHR 0x27] @ ''off'' @
                   [CHR 0x27]), '';'')"
    by code_simp
  moreover have "regexSearch enumRegexAt '';'' = None"
    by code_simp
  ultimately show ?thesis
    by (simp add: enumExecAll_Some enumExecAll_None)
qed

lemma exSqlDoc_tables:
  "tableExecAll exSqlDoc =
     [(''acct'', ''id INT PRIMARY KEY, st state, o INT REFERENCES usr'')]"
proof -
  have "regexSearch tableRegexAt exSqlDoc =
          Some ((''acct'', ''id INT PRIMARY KEY, st state, o INT REFERENCES usr''),
                '';'' @ [CHR 0x0A] @ exSqlTypeStmt @ '';'')"
    by code_simp
  moreover have "regexSearch tableRegexAt ('';'' @ [CHR 0x0A] @ exSqlTypeStmt @ '';'') = None"
    by code_simp
  ultimately show ?thesis
    by (simp add: tableExecAll_Some tableExecAll_None)
qed

lemma exSqlDoc_parse: "parseSqlSchema exSqlDoc = exSqlParsed"
proof -
  have e: "map sqlEnumOf (enumExecAll exSqlDoc) = [exSqlEnum]"
    unfolding exSqlDoc_enums by code_simp
  have "map (sqlModelOf [exSqlEnum]) (tableExecAll exSqlDoc) = models exSqlParsed"
    unfolding exSqlDoc_tables by code_simp
  with e show ?thesis
    by (simp add: parseSqlSchema_def exSqlParsed_def)
qed

lemma exSqlDegradeDoc_parse: "parseSqlSchema exSqlDegradeDoc = exSqlDegradeParsed"
proof -
  have "regexSearch enumRegexAt exSqlDegradeDoc = None"
    by code_simp
  then have e: "enumExecAll exSqlDegradeDoc = []"
    by (rule enumExecAll_None)
  have "regexSearch tableRegexAt exSqlDegradeDoc =
          Some ((''t'', ''id UUID PRIMARY KEY, bogus, email TEXT''), [])"
    by code_simp
  moreover have "regexSearch tableRegexAt [] = None"
    by code_simp
  ultimately have t: "tableExecAll exSqlDegradeDoc =
                        [(''t'', ''id UUID PRIMARY KEY, bogus, email TEXT'')]"
    by (simp add: tableExecAll_Some tableExecAll_None)
  have "map (sqlModelOf []) [(''t'', ''id UUID PRIMARY KEY, bogus, email TEXT'')] =
          models exSqlDegradeParsed"
    by code_simp
  with e t show ?thesis
    by (simp add: parseSqlSchema_def exSqlDegradeParsed_def)
qed

lemma parseModelFields_append:
  "parseModelFields (xs @ ys) known = parseModelFields xs known @ parseModelFields ys known"
  by (induction xs) (auto split: option.splits)

lemma parseSqlColumnDefs_append:
  "parseSqlColumnDefs (xs @ ys) known =
     parseSqlColumnDefs xs known @ parseSqlColumnDefs ys known"
  by (induction xs) (auto simp: Let_def split: option.splits)

lemma parsePrismaField_NoneI: "prismaFieldMatch line = None \<Longrightarrow> parsePrismaField line known = None"
  by (simp add: parsePrismaField_def)

lemma parsePrismaField_SomeI:
  "prismaFieldMatch line = Some x \<Longrightarrow> \<exists>f. parsePrismaField line known = Some f"
  by (cases x) (simp add: parsePrismaField_def Let_def)

lemma parseSqlColumn_NoneI: "sqlColumnMatch d = None \<Longrightarrow> parseSqlColumn d known = None"
  by (simp add: parseSqlColumn_def)

lemma parseSqlColumn_SomeI:
  "sqlColumnMatch d = Some x \<Longrightarrow> \<exists>f. parseSqlColumn d known = Some f"
  by (cases x) (simp add: parseSqlColumn_def Let_def split: option.splits)

lemma parseModelFields_length:
  "length (parseModelFields lines known) =
     length (filter (\<lambda>l. prismaFieldMatch l \<noteq> None) lines)"
proof (induction lines)
  case Nil
  show ?case by simp
next
  case (Cons l ls)
  show ?case
  proof (cases "prismaFieldMatch l")
    case None
    with Cons show ?thesis by (simp add: parsePrismaField_NoneI)
  next
    case (Some x)
    from parsePrismaField_SomeI [OF this] obtain f where "parsePrismaField l known = Some f"
      by blast
    with Some Cons show ?thesis by (cases x) auto
  qed
qed

lemma parseSqlColumnDefs_length:
  "length (parseSqlColumnDefs defs known) =
     length (filter (\<lambda>d. \<not> isConstraintDef (trim d) \<and> sqlColumnMatch (trim d) \<noteq> None) defs)"
proof (induction defs)
  case Nil
  show ?case by simp
next
  case (Cons d ds)
  show ?case
  proof (cases "sqlColumnMatch (trim d)")
    case None
    with Cons show ?thesis by (simp add: parseSqlColumn_NoneI Let_def)
  next
    case (Some x)
    from parseSqlColumn_SomeI [OF this] obtain f where "parseSqlColumn (trim d) known = Some f"
      by blast
    with Some Cons show ?thesis by (cases x) (auto simp: Let_def)
  qed
qed

lemma parsePrisma_empty: "parsePrismaSchema [] = \<lparr>models = [], enums = []\<rparr>"
  by code_simp

lemma parsePrisma_unterminated: "parsePrismaSchema ''model User {'' = \<lparr>models = [], enums = []\<rparr>"
  by code_simp

lemma parseSql_empty: "parseSqlSchema [] = \<lparr>models = [], enums = []\<rparr>"
proof -
  have "regexSearch enumRegexAt [] = None" "regexSearch tableRegexAt [] = None"
    by code_simp+
  then show ?thesis
    by (simp add: parseSqlSchema_def enumExecAll_None tableExecAll_None)
qed


lemma blockStart_close: "blockStart ''model'' ''}'' = None" "blockStart ''enum'' ''}'' = None"
  by (simp_all add: blockStart_def lit_def)

lemma prismaStep_plain:
  assumes "currentBlock st = Some b" and "plainLine l"
  shows "prismaStep st l =
           st\<lparr>currentBlock := Some (b\<lparr>blines := blines b @ keptBlockLines [l]\<rparr>)\<rparr>"
  using assms by (simp add: prismaStep_def plainLine_def keptBlockLines_def Let_def)

lemma keptBlockLines_Cons: "keptBlockLines (l # ls) = keptBlockLines [l] @ keptBlockLines ls"
  by (simp add: keptBlockLines_def)

lemma foldl_body:
  assumes "currentBlock st = Some b" and "\<forall>l \<in> set body. plainLine l"
  shows "foldl prismaStep st body =
           st\<lparr>currentBlock := Some (b\<lparr>blines := blines b @ keptBlockLines body\<rparr>)\<rparr>"
  using assms
proof (induction body arbitrary: st b)
  case Nil
  then show ?case by (simp add: keptBlockLines_def)
next
  case (Cons l ls)
  let ?b = "b\<lparr>blines := blines b @ keptBlockLines [l]\<rparr>"
  let ?st = "st\<lparr>currentBlock := Some ?b\<rparr>"
  from Cons.prems have s: "prismaStep st l = ?st" by (simp add: prismaStep_plain)
  have "foldl prismaStep ?st ls =
          ?st\<lparr>currentBlock := Some (?b\<lparr>blines := blines ?b @ keptBlockLines ls\<rparr>)\<rparr>"
    using Cons.prems by (intro Cons.IH) simp_all
  with s show ?case by (simp add: keptBlockLines_Cons [of l ls])
qed

lemma prismaStep_open:
  assumes "blockStart ''model'' (trim h) = Some n"
  shows "prismaStep st h =
           st\<lparr>currentBlock := Some \<lparr>btype = ModelBlock, bname = n, blines = []\<rparr>\<rparr>"
  using assms by (simp add: prismaStep_def Let_def)

lemma prismaStep_close:
  assumes "currentBlock st = Some b" and "trim c = ''}''"
  shows "prismaStep st c = closeBlock st b"
  using assms by (simp add: prismaStep_def Let_def blockStart_close)

lemma model_block:
  assumes "blockStart ''model'' (trim h) = Some n" and "\<forall>l \<in> set body. plainLine l"
    and "trim c = ''}''"
  shows "foldl prismaStep st (h # body @ [c]) =
           st\<lparr>pmodels := pmodels st @
                 [\<lparr>mname = n, mfields = parseModelFields (keptBlockLines body) (penums st),
                   mdescription = None\<rparr>],
              currentBlock := None\<rparr>"
proof -
  let ?b = "\<lparr>btype = ModelBlock, bname = n, blines = []\<rparr>"
  let ?st = "st\<lparr>currentBlock := Some ?b\<rparr>"
  have 1: "prismaStep st h = ?st" using assms(1) by (rule prismaStep_open)
  have 2: "foldl prismaStep ?st body =
             ?st\<lparr>currentBlock := Some (?b\<lparr>blines := blines ?b @ keptBlockLines body\<rparr>)\<rparr>"
    using assms(2) by (intro foldl_body) simp_all
  let ?st2 = "?st\<lparr>currentBlock := Some (?b\<lparr>blines := blines ?b @ keptBlockLines body\<rparr>)\<rparr>"
  have 3: "prismaStep ?st2 c = closeBlock ?st2 (?b\<lparr>blines := blines ?b @ keptBlockLines body\<rparr>)"
    using assms(3) by (intro prismaStep_close) simp_all
  have "foldl prismaStep st (h # body @ [c]) =
          prismaStep (foldl prismaStep (prismaStep st h) body) c"
    by simp
  also have "\<dots> = prismaStep ?st2 c" by (simp only: 1 2)
  also note 3
  also have "closeBlock ?st2 (?b\<lparr>blines := blines ?b @ keptBlockLines body\<rparr>) =
               st\<lparr>pmodels := pmodels st @
                 [\<lparr>mname = n, mfields = parseModelFields (keptBlockLines body) (penums st),
                   mdescription = None\<rparr>],
              currentBlock := None\<rparr>"
    by (simp add: closeBlock_def)
  finally show ?thesis .
qed

lemma prismaStep_prefix: "prefix (pmodels st) (pmodels (prismaStep st l))"
  by (simp add: prismaStep_def closeBlock_def Let_def
      split: option.splits BlockType.splits)

lemma foldl_prefix: "prefix (pmodels st) (pmodels (foldl prismaStep st ls))"
proof (induction ls arbitrary: st)
  case Nil
  show ?case by simp
next
  case (Cons l ls)
  have "prefix (pmodels st) (pmodels (prismaStep st l))" by (rule prismaStep_prefix)
  also have "prefix \<dots> (pmodels (foldl prismaStep (prismaStep st l) ls))" by (rule Cons.IH)
  finally show ?case by simp
qed

lemma parsePrismaField_enum:
  assumes "parsePrismaField line known = Some f"
    and "prismaFieldMatch line = Some (name, rawType, marked)"
  shows "if \<exists>e \<in> set known. ename e = rawType
         then ftype f = FT_enum \<and>
              (\<exists>e \<in> set known. ename e = rawType \<and>
                 find (\<lambda>e. ename e = rawType) known = Some e \<and>
                 enumValues f = Some (evalues e))
         else ftype f \<noteq> FT_enum \<and> ftype f = mapPrismaType rawType False \<and>
              enumValues f = None"
proof (cases "find (\<lambda>e. ename e = rawType) known")
  case None
  then have n: "\<not> (\<exists>e \<in> set known. ename e = rawType)" by (simp add: find_None_all)
  have "mapPrismaType rawType False \<noteq> FT_enum"
    unfolding mapPrismaType_def by (simp, rule typeMapLookup_neq) simp_all
  with assms None n show ?thesis
    by (auto simp: parsePrismaField_def Let_def split: if_splits)
next
  case (Some e)
  from find_Some_mem [OF Some] have "e \<in> set known" "ename e = rawType" by simp_all
  with assms Some show ?thesis
    by (auto simp: parsePrismaField_def Let_def mapPrismaType_def split: if_splits)
qed

lemma prismaStep_open_enum:
  assumes "blockStart ''model'' (trim h) = None" and "blockStart ''enum'' (trim h) = Some n"
  shows "prismaStep st h =
           st\<lparr>currentBlock := Some \<lparr>btype = EnumBlock, bname = n, blines = []\<rparr>\<rparr>"
  using assms by (simp add: prismaStep_def Let_def)

lemma enum_block:
  assumes "blockStart ''model'' (trim h) = None" and "blockStart ''enum'' (trim h) = Some n"
    and "\<forall>l \<in> set body. plainLine l" and "trim c = ''}''"
  shows "foldl prismaStep st (h # body @ [c]) =
           st\<lparr>penums := penums st @
                 [\<lparr>ename = n,
                   evalues = filter (\<lambda>l. l \<noteq> [] \<and> \<not> startsWith l ''//'')
                                    (map trim (keptBlockLines body))\<rparr>],
              currentBlock := None\<rparr>"
proof -
  let ?b = "\<lparr>btype = EnumBlock, bname = n, blines = []\<rparr>"
  let ?st = "st\<lparr>currentBlock := Some ?b\<rparr>"
  have 1: "prismaStep st h = ?st" using assms(1,2) by (rule prismaStep_open_enum)
  have 2: "foldl prismaStep ?st body =
             ?st\<lparr>currentBlock := Some (?b\<lparr>blines := blines ?b @ keptBlockLines body\<rparr>)\<rparr>"
    using assms(3) by (intro foldl_body) simp_all
  let ?st2 = "?st\<lparr>currentBlock := Some (?b\<lparr>blines := blines ?b @ keptBlockLines body\<rparr>)\<rparr>"
  have 3: "prismaStep ?st2 c = closeBlock ?st2 (?b\<lparr>blines := blines ?b @ keptBlockLines body\<rparr>)"
    using assms(4) by (intro prismaStep_close) simp_all
  have "foldl prismaStep st (h # body @ [c]) =
          prismaStep (foldl prismaStep (prismaStep st h) body) c"
    by simp
  also have "\<dots> = prismaStep ?st2 c" by (simp only: 1 2)
  also note 3
  also have "closeBlock ?st2 (?b\<lparr>blines := blines ?b @ keptBlockLines body\<rparr>) =
               st\<lparr>penums := penums st @
                 [\<lparr>ename = n,
                   evalues = filter (\<lambda>l. l \<noteq> [] \<and> \<not> startsWith l ''//'')
                                    (map trim (keptBlockLines body))\<rparr>],
              currentBlock := None\<rparr>"
    by (simp add: closeBlock_def)
  finally show ?thesis .
qed

lemma prismaStep_enums_prefix: "prefix (penums st) (penums (prismaStep st l))"
  by (simp add: prismaStep_def closeBlock_def Let_def
      split: option.splits BlockType.splits)

lemma foldl_enums_prefix: "prefix (penums st) (penums (foldl prismaStep st ls))"
proof (induction ls arbitrary: st)
  case Nil
  show ?case by simp
next
  case (Cons l ls)
  have "prefix (penums st) (penums (prismaStep st l))" by (rule prismaStep_enums_prefix)
  also have "prefix \<dots> (penums (foldl prismaStep (prismaStep st l) ls))" by (rule Cons.IH)
  finally show ?case by simp
qed

lemma enum_block_known:
  assumes "blockStart ''model'' (trim h) = None" and "blockStart ''enum'' (trim h) = Some n"
    and "\<forall>l \<in> set body. plainLine l" and "trim c = ''}''"
  shows "\<lparr>ename = n,
          evalues = filter (\<lambda>l. l \<noteq> [] \<and> \<not> startsWith l ''//'')
                           (map trim (keptBlockLines body))\<rparr>
           \<in> set (enums (parsePrismaLines (pre @ h # body @ c # mid)))"
proof -
  let ?st = "foldl prismaStep prismaInit pre"
  let ?e = "\<lparr>ename = n,
          evalues = filter (\<lambda>l. l \<noteq> [] \<and> \<not> startsWith l ''//'')
                           (map trim (keptBlockLines body))\<rparr>"
  have "foldl prismaStep prismaInit (pre @ h # body @ c # mid) =
          foldl prismaStep (foldl prismaStep ?st (h # body @ [c])) mid"
    by simp
  also have "foldl prismaStep ?st (h # body @ [c]) =
               ?st\<lparr>penums := penums ?st @ [?e], currentBlock := None\<rparr>"
    using assms by (rule enum_block)
  finally have "prefix (penums ?st @ [?e])
                  (penums (foldl prismaStep prismaInit (pre @ h # body @ c # mid)))"
    using foldl_enums_prefix [of "?st\<lparr>penums := penums ?st @ [?e], currentBlock := None\<rparr>" mid]
    by simp
  then have "?e \<in> set (penums (foldl prismaStep prismaInit (pre @ h # body @ c # mid)))"
    by (auto simp: prefix_def)
  then show ?thesis
    by (simp add: parsePrismaLines_def Let_def)
qed

lemma blockStart_exclusive: "blockStart ''enum'' s = Some n \<Longrightarrow> blockStart ''model'' s = None"
  by (cases s) (auto simp: blockStart_def lit_def split: Option.bind_splits if_splits)

lemma model_block_in_schema:
  assumes "splitChar CHR 0x0A input = pre @ h # body @ c # post"
    and "blockStart ''model'' (trim h) = Some n"
    and "\<forall>l \<in> set body. plainLine l"
    and "trim c = ''}''"
  shows "\<lparr>mname = n,
          mfields = parseModelFields (keptBlockLines body) (enums (parsePrismaLines pre)),
          mdescription = None\<rparr> \<in> set (models (parsePrismaSchema input))"
proof -
  let ?st = "foldl prismaStep prismaInit pre"
  let ?m = "\<lparr>mname = n,
          mfields = parseModelFields (keptBlockLines body) (penums ?st),
          mdescription = None\<rparr>"
  have "foldl prismaStep prismaInit (pre @ h # body @ c # post) =
          foldl prismaStep (foldl prismaStep ?st (h # body @ [c])) post"
    by simp
  also have "foldl prismaStep ?st (h # body @ [c]) =
               ?st\<lparr>pmodels := pmodels ?st @ [?m], currentBlock := None\<rparr>"
    using assms(2-4) by (rule model_block)
  finally have "prefix (pmodels ?st @ [?m])
                  (pmodels (foldl prismaStep prismaInit (pre @ h # body @ c # post)))"
    using foldl_prefix [of "?st\<lparr>pmodels := pmodels ?st @ [?m], currentBlock := None\<rparr>" post]
    by simp
  then have "?m \<in> set (pmodels (foldl prismaStep prismaInit (pre @ h # body @ c # post)))"
    by (auto simp: prefix_def)
  then show ?thesis
    using assms(1) by (simp add: parsePrismaSchema_def parsePrismaLines_def Let_def)
qed

section \<open>Properties of the parsers\<close>

text \<open>
  Claim C2. The two parsers are total functions of the input text: the source has no
  \<^verbatim>\<open>throw\<close>, it calls methods only on values that are strings or arrays on every path (a
  group that may not take part in a match is only tested), and its loops end, which is
  proved with the definitions of \<open>enumExecAll\<close> and \<open>tableExecAll\<close>. A line of a model block
  that the field pattern does not match gives no field and leaves the fields of the other
  lines as they are; so does a column definition that the column pattern does not match.
  The number of fields is the number of lines (of column definitions that are no
  constraint) that the pattern matches, in the loops and in the models of the result: the
  model of a closed block has as many fields as its collected lines match the pattern, and
  every model of the SQL result as many as the column definitions of its table do. A block
  with a line without a type between two field lines gives a model of exactly two fields,
  and so does a table; the empty text and a block that is never closed give the empty
  schema.
\<close>

theorem parsers_degrade:
  "(prismaFieldMatch line = None \<longrightarrow>
      parsePrismaField line known = None \<and>
      parseModelFields (xs @ line # ys) known =
        parseModelFields xs known @ parseModelFields ys known) \<and>
   (sqlColumnMatch (trim d) = None \<longrightarrow>
      parseSqlColumn (trim d) known = None \<and>
      parseSqlColumnDefs (ds @ d # es) known =
        parseSqlColumnDefs ds known @ parseSqlColumnDefs es known) \<and>
   length (parseModelFields lines known) =
     length (filter (\<lambda>l. prismaFieldMatch l \<noteq> None) lines) \<and>
   length (parseSqlColumnDefs defs known) =
     length (filter (\<lambda>d. \<not> isConstraintDef (trim d) \<and> sqlColumnMatch (trim d) \<noteq> None) defs) \<and>
   (splitChar CHR 0x0A input = pre @ h # body @ c # post \<and>
    blockStart ''model'' (trim h) = Some n \<and> (\<forall>l \<in> set body. plainLine l) \<and>
    trim c = ''}'' \<longrightarrow>
      (\<exists>m \<in> set (models (parsePrismaSchema input)).
         mname m = n \<and>
         length (mfields m) =
           length (filter (\<lambda>l. prismaFieldMatch l \<noteq> None) (keptBlockLines body)))) \<and>
   (\<forall>m \<in> set (models (parseSqlSchema sql)).
      \<exists>groups \<in> set (tableExecAll sql).
        mname m = toPascalCase (fst groups) \<and>
        length (mfields m) =
          length (filter (\<lambda>d. \<not> isConstraintDef (trim d) \<and> sqlColumnMatch (trim d) \<noteq> None)
                         (splitColumns (snd groups)))) \<and>
   parsePrismaSchema exDegradeDoc = exDegradeParsed \<and>
   parseSqlSchema exSqlDegradeDoc = exSqlDegradeParsed \<and>
   parsePrismaSchema [] = \<lparr>models = [], enums = []\<rparr> \<and>
   parsePrismaSchema ''model User {'' = \<lparr>models = [], enums = []\<rparr> \<and>
   parseSqlSchema [] = \<lparr>models = [], enums = []\<rparr>"
proof -
  have a: "prismaFieldMatch line = None \<longrightarrow>
      parsePrismaField line known = None \<and>
      parseModelFields (xs @ line # ys) known =
        parseModelFields xs known @ parseModelFields ys known"
    by (simp add: parseModelFields_append parsePrismaField_NoneI)
  have b: "sqlColumnMatch (trim d) = None \<longrightarrow>
      parseSqlColumn (trim d) known = None \<and>
      parseSqlColumnDefs (ds @ d # es) known =
        parseSqlColumnDefs ds known @ parseSqlColumnDefs es known"
    by (simp add: parseSqlColumnDefs_append parseSqlColumn_NoneI Let_def)
  have c: "splitChar CHR 0x0A input = pre @ h # body @ c # post \<and>
    blockStart ''model'' (trim h) = Some n \<and> (\<forall>l \<in> set body. plainLine l) \<and>
    trim c = ''}'' \<longrightarrow>
      (\<exists>m \<in> set (models (parsePrismaSchema input)).
         mname m = n \<and>
         length (mfields m) =
           length (filter (\<lambda>l. prismaFieldMatch l \<noteq> None) (keptBlockLines body)))"
  proof
    assume h: "splitChar CHR 0x0A input = pre @ h # body @ c # post \<and>
      blockStart ''model'' (trim h) = Some n \<and> (\<forall>l \<in> set body. plainLine l) \<and>
      trim c = ''}''"
    let ?m = "\<lparr>mname = n,
          mfields = parseModelFields (keptBlockLines body) (enums (parsePrismaLines pre)),
          mdescription = None\<rparr>"
    from h have h1: "splitChar CHR 0x0A input = pre @ h # body @ c # post"
      and h2: "blockStart ''model'' (trim h) = Some n"
      and h3: "\<forall>l \<in> set body. plainLine l" and h4: "trim c = ''}''"
      by simp_all
    have "?m \<in> set (models (parsePrismaSchema input))"
      using h1 h2 h3 h4 by (rule model_block_in_schema)
    moreover have "mname ?m = n" by simp
    moreover have "length (mfields ?m) =
           length (filter (\<lambda>l. prismaFieldMatch l \<noteq> None) (keptBlockLines body))"
      by (simp only: Model.simps parseModelFields_length)
    ultimately show "\<exists>m \<in> set (models (parsePrismaSchema input)).
         mname m = n \<and>
         length (mfields m) =
           length (filter (\<lambda>l. prismaFieldMatch l \<noteq> None) (keptBlockLines body))"
      by blast
  qed
  have d: "\<forall>m \<in> set (models (parseSqlSchema sql)).
      \<exists>groups \<in> set (tableExecAll sql).
        mname m = toPascalCase (fst groups) \<and>
        length (mfields m) =
          length (filter (\<lambda>d. \<not> isConstraintDef (trim d) \<and> sqlColumnMatch (trim d) \<noteq> None)
                         (splitColumns (snd groups)))"
  proof
    fix m assume "m \<in> set (models (parseSqlSchema sql))"
    then obtain groups where g: "groups \<in> set (tableExecAll sql)"
      and m: "m = sqlModelOf (enums (parseSqlSchema sql)) groups"
      by (auto simp: parseSqlSchema_def Let_def)
    from m have "mname m = toPascalCase (fst groups)"
      and "mfields m = parseSqlColumnDefs (splitColumns (snd groups)) (enums (parseSqlSchema sql))"
      by (simp_all add: sqlModelOf_def parseSqlColumns_def)
    with g show "\<exists>groups \<in> set (tableExecAll sql).
        mname m = toPascalCase (fst groups) \<and>
        length (mfields m) =
          length (filter (\<lambda>d. \<not> isConstraintDef (trim d) \<and> sqlColumnMatch (trim d) \<noteq> None)
                         (splitColumns (snd groups)))"
      by (intro bexI [of _ groups]) (simp_all add: parseSqlColumnDefs_length)
  qed
  show ?thesis
    by (intro conjI)
       (rule a b c d parseModelFields_length parseSqlColumnDefs_length exDegradeDoc_parse
          exSqlDegradeDoc_parse parsePrisma_empty parsePrisma_unterminated parseSql_empty)+
qed

theorem parsers_degrade_witness:
  "prismaFieldMatch ''email'' = None \<and>
   length (parseModelFields [''id    String @id'', ''email'', ''name  String?''] []) = 2 \<and>
   sqlColumnMatch (trim '' bogus'') = None \<and>
   length (parseSqlColumnDefs [''id UUID PRIMARY KEY'', '' bogus'', '' email TEXT''] []) = 2 \<and>
   length (filter (\<lambda>l. prismaFieldMatch l \<noteq> None)
             (keptBlockLines [''  id    String @id'', ''  email'', ''  name  String?''])) = 2 \<and>
   (\<exists>m \<in> set (models (parsePrismaSchema exDegradeDoc)).
      mname m = ''User'' \<and> length (mfields m) = 2) \<and>
   length (mfields (hd (models (parsePrismaSchema exDegradeDoc)))) = 2 \<and>
   length (mfields (hd (models (parseSqlSchema exSqlDegradeDoc)))) = 2"
proof -
  let ?body = "[''  id    String @id'', ''  email'', ''  name  String?'']"
  have p: "prismaFieldMatch ''email'' = None" by code_simp
  have s: "sqlColumnMatch (trim '' bogus'') = None" by code_simp
  have p2: "length (parseModelFields [''id    String @id''] []) = 1"
           "length (parseModelFields [''name  String?''] []) = 1"
    by code_simp+
  have s2: "length (parseSqlColumnDefs [''id UUID PRIMARY KEY''] []) = 1"
           "length (parseSqlColumnDefs ['' email TEXT''] []) = 1"
    by code_simp+
  have sp: "splitChar CHR 0x0A exDegradeDoc = [] @ ''model User {'' # ?body @ ''}'' # []"
    by code_simp
  have h: "blockStart ''model'' (trim ''model User {'') = Some ''User''" by code_simp
  have b: "\<forall>l \<in> set ?body. plainLine l" by code_simp
  have c: "trim ''}'' = ''}''" by code_simp
  have k: "length (filter (\<lambda>l. prismaFieldMatch l \<noteq> None) (keptBlockLines ?body)) = 2"
    by code_simp
  note t = parsers_degrade [of "''email''" "[]" "[''id    String @id'']" "[''name  String?'']"
               "'' bogus''" "[''id UUID PRIMARY KEY'']" "['' email TEXT'']" "[]" "[]"
               exDegradeDoc "[]" "''model User {''" ?body "''}''" "[]" "''User''" "[]"]
  note t1 = t [THEN conjunct1]
  note t2 = t [THEN conjunct2, THEN conjunct1]
  note t5 = t [THEN conjunct2, THEN conjunct2, THEN conjunct2, THEN conjunct2, THEN conjunct1]
  note t7 = t [THEN conjunct2, THEN conjunct2, THEN conjunct2, THEN conjunct2, THEN conjunct2,
               THEN conjunct2, THEN conjunct1]
  note t8 = t [THEN conjunct2, THEN conjunct2, THEN conjunct2, THEN conjunct2, THEN conjunct2,
               THEN conjunct2, THEN conjunct2, THEN conjunct1]
  have l1: "[''id    String @id'', ''email'', ''name  String?''] =
              [''id    String @id''] @ ''email'' # [''name  String?'']"
    by simp
  have l2: "[''id UUID PRIMARY KEY'', '' bogus'', '' email TEXT''] =
              [''id UUID PRIMARY KEY''] @ '' bogus'' # ['' email TEXT'']"
    by simp
  note q1 = mp [OF t1 p, THEN conjunct2]
  note q2 = mp [OF t2 s, THEN conjunct2]
  have r1: "length (parseModelFields [''id    String @id'', ''email'', ''name  String?''] []) = 2"
    unfolding l1 q1 length_append p2 by simp
  have r2: "length (parseSqlColumnDefs [''id UUID PRIMARY KEY'', '' bogus'', '' email TEXT''] []) = 2"
    unfolding l2 q2 length_append s2 by simp
  have pre: "splitChar CHR 0x0A exDegradeDoc = [] @ ''model User {'' # ?body @ ''}'' # [] \<and>
    blockStart ''model'' (trim ''model User {'') = Some ''User'' \<and>
    (\<forall>l \<in> set ?body. plainLine l) \<and> trim ''}'' = ''}''"
    using sp h b c by (intro conjI)
  have r3: "\<exists>m \<in> set (models (parsePrismaSchema exDegradeDoc)).
      mname m = ''User'' \<and> length (mfields m) = 2"
    using mp [OF t5 pre] unfolding k .
  have r4: "length (mfields (hd (models (parsePrismaSchema exDegradeDoc)))) = 2"
    unfolding t7 by (simp add: exDegradeParsed_def)
  have r5: "length (mfields (hd (models (parseSqlSchema exSqlDegradeDoc)))) = 2"
    unfolding t8 by (simp add: exSqlDegradeParsed_def)
  show ?thesis
    using p s k r1 r2 r3 r4 r5 by (intro conjI)
qed

text \<open>
  Claim C3. Let the lines of the input be \<open>pre\<close>, the opening line of a model block, plain
  body lines, the closing line, and \<open>post\<close>. Then the result of \<open>parsePrismaSchema\<close> has the
  model of that block with its fields parsed against the enums of \<open>pre\<close> alone, that is
  against the enum blocks closed before the model block closes, whatever \<open>post\<close> holds. For
  a field the pattern matches: when its raw type is the name of one of the enums it is
  parsed against, it has the type \<open>enum\<close> and the values of such an enum (the first of that
  name); when it is not, as for an enum whose block comes only after the model block, it
  does not have the type \<open>enum\<close> but the type the type table gives for the name, and no
  enum values. An enum block that stands in \<open>pre\<close> with its closing line is one of the enums
  of \<open>pre\<close>, under its name and with its values.
\<close>

theorem prisma_enum_resolution_order:
  assumes "splitChar CHR 0x0A input = pre @ h # body @ c # post"
    and "blockStart ''model'' (trim h) = Some n"
    and "\<forall>l \<in> set body. plainLine l"
    and "trim c = ''}''"
  shows "\<lparr>mname = n,
          mfields = parseModelFields (keptBlockLines body) (enums (parsePrismaLines pre)),
          mdescription = None\<rparr> \<in> set (models (parsePrismaSchema input)) \<and>
         (parsePrismaField line known = Some f \<and>
          prismaFieldMatch line = Some (name, rawType, marked) \<longrightarrow>
            (if \<exists>e \<in> set known. ename e = rawType
             then ftype f = FT_enum \<and>
                  (\<exists>e \<in> set known. ename e = rawType \<and>
                     find (\<lambda>e. ename e = rawType) known = Some e \<and>
                     enumValues f = Some (evalues e))
             else ftype f \<noteq> FT_enum \<and> ftype f = mapPrismaType rawType False \<and>
                  enumValues f = None)) \<and>
         (pre = epre @ eh # ebody @ ec # mid \<and> blockStart ''enum'' (trim eh) = Some en \<and>
          (\<forall>l \<in> set ebody. plainLine l) \<and> trim ec = ''}'' \<longrightarrow>
            \<lparr>ename = en,
             evalues = filter (\<lambda>l. l \<noteq> [] \<and> \<not> startsWith l ''//'')
                              (map trim (keptBlockLines ebody))\<rparr>
              \<in> set (enums (parsePrismaLines pre)))"
proof (intro conjI)
  show "\<lparr>mname = n,
          mfields = parseModelFields (keptBlockLines body) (enums (parsePrismaLines pre)),
          mdescription = None\<rparr> \<in> set (models (parsePrismaSchema input))"
    using assms by (rule model_block_in_schema)
next
  show "parsePrismaField line known = Some f \<and>
          prismaFieldMatch line = Some (name, rawType, marked) \<longrightarrow>
            (if \<exists>e \<in> set known. ename e = rawType
             then ftype f = FT_enum \<and>
                  (\<exists>e \<in> set known. ename e = rawType \<and>
                     find (\<lambda>e. ename e = rawType) known = Some e \<and>
                     enumValues f = Some (evalues e))
             else ftype f \<noteq> FT_enum \<and> ftype f = mapPrismaType rawType False \<and>
                  enumValues f = None)"
    using parsePrismaField_enum [of line known f name rawType marked] by blast
next
  show "pre = epre @ eh # ebody @ ec # mid \<and> blockStart ''enum'' (trim eh) = Some en \<and>
          (\<forall>l \<in> set ebody. plainLine l) \<and> trim ec = ''}'' \<longrightarrow>
            \<lparr>ename = en,
             evalues = filter (\<lambda>l. l \<noteq> [] \<and> \<not> startsWith l ''//'')
                              (map trim (keptBlockLines ebody))\<rparr>
              \<in> set (enums (parsePrismaLines pre))"
    using enum_block_known [of eh en ebody ec epre mid] blockStart_exclusive [of "trim eh" en]
    by auto
qed

theorem prisma_enum_resolution_order_witness:
  "splitChar CHR 0x0A exPrismaDoc = exPrismaLines \<and>
   enums (parsePrismaLines []) = [] \<and>
   exParsedUser \<in> set (models (parsePrismaSchema exPrismaDoc)) \<and>
   parsePrismaField ''role  Role'' [] = Some (hd (mfields exParsedUser)) \<and>
   ftype (hd (mfields exParsedUser)) = FT_relation \<and>
   enumValues (hd (mfields exParsedUser)) = None \<and>
   take 8 exPrismaLines @ drop 8 exPrismaLines = exPrismaLines \<and>
   \<lparr>ename = ''Role'', evalues = [''ADMIN'', ''USER'']\<rparr>
     \<in> set (enums (parsePrismaLines (take 8 exPrismaLines))) \<and>
   enums (parsePrismaLines (take 8 exPrismaLines)) = enums exPrismaParsed \<and>
   exParsedPost \<in> set (models (parsePrismaSchema exPrismaDoc)) \<and>
   parsePrismaField ''role   Role'' (enums exPrismaParsed) = Some (hd (mfields exParsedPost)) \<and>
   ftype (hd (mfields exParsedPost)) = FT_enum \<and>
   enumValues (hd (mfields exParsedPost)) = Some [''ADMIN'', ''USER'']"
proof -
  let ?body1 = "[''  role  Role'', ''  posts Post[]'']"
  let ?body2 = "[''  role   Role'',
                 ''  author User @relation(fields: [authorId], references: [id])'']"
  let ?ebody = "[''  ADMIN'', ''  USER'']"
  have sp: "splitChar CHR 0x0A exPrismaDoc = exPrismaLines" by code_simp
  have s1: "splitChar CHR 0x0A exPrismaDoc =
              [] @ ''model User {'' # ?body1 @ ''}'' # drop 4 exPrismaLines"
    unfolding sp by (simp add: exPrismaLines_def)
  have s2: "splitChar CHR 0x0A exPrismaDoc =
              take 8 exPrismaLines @ ''model Post {'' # ?body2 @ ''}'' # []"
    unfolding sp by (simp add: exPrismaLines_def)
  have s3: "take 8 exPrismaLines = take 4 exPrismaLines @ ''enum Role {'' # ?ebody @ ''}'' # []"
    by (simp add: exPrismaLines_def)
  have h1: "blockStart ''model'' (trim ''model User {'') = Some ''User''" by code_simp
  have h2: "blockStart ''model'' (trim ''model Post {'') = Some ''Post''" by code_simp
  have h3: "blockStart ''enum'' (trim ''enum Role {'') = Some ''Role''" by code_simp
  have b1: "\<forall>l \<in> set ?body1. plainLine l" by code_simp
  have b2: "\<forall>l \<in> set ?body2. plainLine l" by code_simp
  have b3: "\<forall>l \<in> set ?ebody. plainLine l" by code_simp
  have c: "trim ''}'' = ''}''" by code_simp
  have e1: "enums (parsePrismaLines []) = []" by code_simp
  have e2: "enums (parsePrismaLines (take 8 exPrismaLines)) = enums exPrismaParsed"
    by code_simp
  have e3: "filter (\<lambda>l. l \<noteq> [] \<and> \<not> startsWith l ''//'') (map trim (keptBlockLines ?ebody)) =
              [''ADMIN'', ''USER'']"
    by code_simp
  have f1: "parseModelFields (keptBlockLines ?body1) [] = mfields exParsedUser" by code_simp
  have f2: "parseModelFields (keptBlockLines ?body2) (enums exPrismaParsed) =
              mfields exParsedPost"
    by code_simp
  have p1: "parsePrismaField ''role  Role'' [] = Some (hd (mfields exParsedUser))"
    by code_simp
  have p2: "parsePrismaField ''role   Role'' (enums exPrismaParsed) =
              Some (hd (mfields exParsedPost))"
    by code_simp
  have m1: "prismaFieldMatch ''role  Role'' = Some (''role'', ''Role'', False)" by code_simp
  have m2: "prismaFieldMatch ''role   Role'' = Some (''role'', ''Role'', False)" by code_simp
  have t1: "mapPrismaType ''Role'' False = FT_relation" by code_simp
  have v: "evalues (hd (enums exPrismaParsed)) = [''ADMIN'', ''USER'']"
          "set (enums exPrismaParsed) = {hd (enums exPrismaParsed)}"
          "ename (hd (enums exPrismaParsed)) = ''Role''"
    by (simp_all add: exPrismaParsed_def)
  note w1 = prisma_enum_resolution_order [OF s1 h1 b1 c,
      of "''role  Role''" "[]" "hd (mfields exParsedUser)" "''role''" "''Role''" False]
  note w2 = prisma_enum_resolution_order [OF s2 h2 b2 c,
      of "''role   Role''" "enums exPrismaParsed" "hd (mfields exParsedPost)"
         "''role''" "''Role''" False "take 4 exPrismaLines" "''enum Role {''" ?ebody "''}''"
         "[]" "''Role''"]
  from w1 have u: "exParsedUser \<in> set (models (parsePrismaSchema exPrismaDoc))"
    by (simp add: e1 f1) (simp add: exParsedUser_def)
  from w1 p1 m1 have uf: "ftype (hd (mfields exParsedUser)) = FT_relation \<and>
                          enumValues (hd (mfields exParsedUser)) = None"
    by (simp add: t1)
  from w2 have q: "exParsedPost \<in> set (models (parsePrismaSchema exPrismaDoc))"
    by (simp add: e2 f2) (simp add: exParsedPost_def)
  from w2 p2 m2 have qf: "ftype (hd (mfields exParsedPost)) = FT_enum \<and>
                          enumValues (hd (mfields exParsedPost)) = Some [''ADMIN'', ''USER'']"
    by (simp add: v)
  from w2 s3 h3 b3 c
  have k: "\<lparr>ename = ''Role'', evalues = [''ADMIN'', ''USER'']\<rparr>
             \<in> set (enums (parsePrismaLines (take 8 exPrismaLines)))"
    unfolding e3 by blast
  from sp e1 e2 p1 p2 u uf q qf k show ?thesis by simp
qed


























lemma exSqlStmt_text:
  "spec_enumStatementText exSqlStmt =
     ''create Type  State as'' @ [CHR 0x0A] @ ''ENUM('' @ [CHR 0x27] @ ''on'' @ [CHR 0x27] @
     '', '' @ [CHR 0x27] @ ''off'' @ [CHR 0x27] @ '')''"
  by (simp add: spec_enumStatementText_def exSqlStmt_def)








text \<open>
  Claim C5. Every relation field in the result of \<open>parsePrismaSchema\<close> comes from a line that
  the field pattern matches, and carries a relation whose type is \<open>OneToMany\<close> if and only if
  the list marker \<^verbatim>\<open>[]\<close> after the raw type matched, which is also the field's \<open>isList\<close>, and
  \<open>OneToOne\<close> otherwise. It is never \<open>ManyToMany\<close>.
\<close>

theorem prisma_relation_cardinality:
  assumes "m \<in> set (models (parsePrismaSchema input))" and "f \<in> set (mfields m)"
    and "ftype f = FT_relation"
  shows "\<exists>line known name rawType marked r.
           parsePrismaField line known = Some f \<and>
           prismaFieldMatch line = Some (name, rawType, marked) \<and>
           isList f = marked \<and> relation f = Some r \<and>
           (rtype r = OneToMany \<longleftrightarrow> marked) \<and> (rtype r = OneToOne \<longleftrightarrow> \<not> marked) \<and>
           rtype r \<noteq> ManyToMany"
proof -
  from parsePrismaSchema_source [OF assms(1,2)]
  obtain line known where p: "parsePrismaField line known = Some f" by blast
  from parsePrismaField_relation [OF p] assms(3)
  obtain name rawType marked fk where
    "prismaFieldMatch line = Some (name, rawType, marked)" "isList f = marked"
    "relation f = Some \<lparr>rmodel = rawType,
                          rtype = (if marked then OneToMany else OneToOne), foreignKey = fk\<rparr>"
    by auto
  with p show ?thesis by (cases marked) fastforce+
qed

theorem prisma_relation_cardinality_witness:
  "exParsedUser \<in> set (models (parsePrismaSchema exPrismaDoc)) \<and>
   exPostsField \<in> set (mfields exParsedUser) \<and> ftype exPostsField = FT_relation \<and>
   isList exPostsField \<and>
   (\<exists>r. relation exPostsField = Some r \<and> rtype r = OneToMany) \<and>
   exParsedPost \<in> set (models (parsePrismaSchema exPrismaDoc)) \<and>
   exAuthorField \<in> set (mfields exParsedPost) \<and> ftype exAuthorField = FT_relation \<and>
   \<not> isList exAuthorField \<and>
   (\<exists>r. relation exAuthorField = Some r \<and> rtype r = OneToOne)"
proof -
  have m: "exParsedUser \<in> set (models (parsePrismaSchema exPrismaDoc))"
          "exParsedPost \<in> set (models (parsePrismaSchema exPrismaDoc))"
    by (simp_all add: exPrismaDoc_parse exPrismaParsed_def)
  have f: "exPostsField \<in> set (mfields exParsedUser)"
          "exAuthorField \<in> set (mfields exParsedPost)"
    by (simp_all add: exParsedUser_def exParsedPost_def)
  have t: "ftype exPostsField = FT_relation" "ftype exAuthorField = FT_relation"
          "isList exPostsField" "\<not> isList exAuthorField"
    by (simp_all add: exPostsField_def exAuthorField_def exField_def)
  from prisma_relation_cardinality [OF m(1) f(1) t(1)] t(3)
  have "\<exists>r. relation exPostsField = Some r \<and> rtype r = OneToMany" by auto
  moreover from prisma_relation_cardinality [OF m(2) f(2) t(2)] t(4)
  have "\<exists>r. relation exAuthorField = Some r \<and> rtype r = OneToOne" by auto
  ultimately show ?thesis using m f t by blast
qed

text \<open>
  Claim C9. Every field in the result of \<open>parsePrismaSchema\<close> or of \<open>parseSqlSchema\<close> whose
  type is \<open>relation\<close> has its \<open>relation\<close> attribute, with a model name and a relation type.
\<close>

theorem parsed_relation_present:
  assumes "m \<in> set (models (parsePrismaSchema input)) \<or>
           m \<in> set (models (parseSqlSchema input))"
    and "f \<in> set (mfields m)" and "ftype f = FT_relation"
  shows "\<exists>mo ty fk. relation f = Some \<lparr>rmodel = mo, rtype = ty, foreignKey = fk\<rparr>"
  using assms(1)
proof
  assume "m \<in> set (models (parsePrismaSchema input))"
  from parsePrismaSchema_source [OF this assms(2)]
  obtain line known where "parsePrismaField line known = Some f" by blast
  from parsePrismaField_relation [OF this] assms(3) show ?thesis by auto
next
  assume "m \<in> set (models (parseSqlSchema input))"
  from parseSqlSchema_source [OF this assms(2)]
  obtain d where "parseSqlColumn (trim d) (enums (parseSqlSchema input)) = Some f" by blast
  from parseSqlColumn_relation [OF this] assms(3) show ?thesis by auto
qed

theorem parsed_relation_present_witness:
  "exParsedPost \<in> set (models (parsePrismaSchema exPrismaDoc)) \<and>
   exAuthorField \<in> set (mfields exParsedPost) \<and> ftype exAuthorField = FT_relation \<and>
   (\<exists>mo ty fk. relation exAuthorField = Some \<lparr>rmodel = mo, rtype = ty, foreignKey = fk\<rparr>) \<and>
   exSqlAcct \<in> set (models (parseSqlSchema exSqlDoc)) \<and>
   exSqlOwner \<in> set (mfields exSqlAcct) \<and> ftype exSqlOwner = FT_relation \<and>
   (\<exists>mo ty fk. relation exSqlOwner = Some \<lparr>rmodel = mo, rtype = ty, foreignKey = fk\<rparr>)"
proof -
  have m: "exParsedPost \<in> set (models (parsePrismaSchema exPrismaDoc))"
          "exSqlAcct \<in> set (models (parseSqlSchema exSqlDoc))"
    by (simp_all add: exPrismaDoc_parse exPrismaParsed_def exSqlDoc_parse exSqlParsed_def)
  have f: "exAuthorField \<in> set (mfields exParsedPost)" "exSqlOwner \<in> set (mfields exSqlAcct)"
    by (simp_all add: exParsedPost_def exSqlAcct_def)
  have t: "ftype exAuthorField = FT_relation" "ftype exSqlOwner = FT_relation"
    by (simp_all add: exAuthorField_def exSqlOwner_def exField_def)
  from m(1) have m1: "exParsedPost \<in> set (models (parsePrismaSchema exPrismaDoc)) \<or>
           exParsedPost \<in> set (models (parseSqlSchema exPrismaDoc))" by simp
  from m(2) have m2: "exSqlAcct \<in> set (models (parsePrismaSchema exSqlDoc)) \<or>
           exSqlAcct \<in> set (models (parseSqlSchema exSqlDoc))" by simp
  show ?thesis
    using m f t parsed_relation_present [OF m1 f(1) t(1)]
      parsed_relation_present [OF m2 f(2) t(2)]
    by blast
qed

text \<open>
  Claim C10. Every field in the result of \<open>parseSqlSchema\<close> has \<open>isList\<close> false.
\<close>

theorem sql_never_list:
  assumes "m \<in> set (models (parseSqlSchema input))" and "f \<in> set (mfields m)"
  shows "isList f = False"
proof -
  from parseSqlSchema_source [OF assms]
  obtain d where "parseSqlColumn (trim d) (enums (parseSqlSchema input)) = Some f" by blast
  from parseSqlColumn_relation [OF this] show ?thesis by simp
qed

theorem sql_never_list_witness:
  "exSqlAcct \<in> set (models (parseSqlSchema exSqlDoc)) \<and>
   exSqlOwner \<in> set (mfields exSqlAcct) \<and> isList exSqlOwner = False"
proof -
  have m: "exSqlAcct \<in> set (models (parseSqlSchema exSqlDoc))"
    by (simp add: exSqlDoc_parse exSqlParsed_def)
  have f: "exSqlOwner \<in> set (mfields exSqlAcct)"
    by (simp add: exSqlAcct_def)
  from sql_never_list [OF m f] m f show ?thesis by blast
qed


end
